theory Spec2Isabelle
  imports Main
begin

section \<open>Data model\<close>

text \<open>
  \<^verbatim>\<open>load_data\<close> returns two dictionaries: \<^verbatim>\<open>rel_points\<close>, from a relation type to its
  points, and \<^verbatim>\<open>chara_rel\<close>, from a character id to the set of its relation types.
  Python's integers are unbounded, so ids and points are \<open>int\<close>. A dictionary is a map;
  a Python dictionary has finitely many keys, which the theorems about
  \<^verbatim>\<open>sorted(chara_rel.keys())\<close> assume as \<open>finite (dom chara_rel)\<close>.
\<close>

type_synonym rel_points = "int \<rightharpoonup> int"
type_synonym chara_rel = "int \<rightharpoonup> int set"
type_synonym aff2_cache = "(int \<times> int) \<rightharpoonup> int"
type_synonym aff3_cache = "(int \<times> int \<times> int) \<rightharpoonup> int"

text \<open>
  The exceptions the modelled code can raise: \<^verbatim>\<open>rel_points[rt]\<close> on a missing key
  (\<open>KeyError\<close>), \<^verbatim>\<open>max(chars)\<close> on an empty list (\<open>ValueError\<close>), and \<^verbatim>\<open>open\<close> or
  \<^verbatim>\<open>f.read()\<close> on a file that cannot be read or decoded (\<open>ReadError\<close>).
\<close>

datatype error = KeyError | ValueError | ReadError

text \<open>
  The value stored for one triple:
  \<^verbatim>\<open>{'affinity_scores': affinity_array, 'base_affinity': base_affinity}\<close>.
\<close>

record affinity_entry =
  affinity_scores :: "int list"
  base_affinity :: int

type_synonym affinity_dict = "(int \<times> int \<times> int) \<rightharpoonup> affinity_entry"

section \<open>Building blocks\<close>

text \<open>
  \<^verbatim>\<open>chara_rel\<close> is a \<^verbatim>\<open>defaultdict(set)\<close>: subscripting a key that is absent yields the
  empty set. Inside \<^verbatim>\<open>compute_affinity_scores\<close> every subscript is at a key taken from
  \<^verbatim>\<open>chara_rel.keys()\<close>, so the default is never used there.
\<close>

definition chara_rel_get :: "chara_rel \<Rightarrow> int \<Rightarrow> int set" where
  "chara_rel_get chara_rel a = (case chara_rel a of None \<Rightarrow> {} | Some rels \<Rightarrow> rels)"

text \<open>
  \<^verbatim>\<open>sum(rel_points[rt] for rt in common)\<close>: \<^verbatim>\<open>rel_points\<close> is a plain dictionary, so the
  generator raises \<^verbatim>\<open>KeyError\<close> at the first relation type without points; otherwise
  the sum is over all members of the set, in whatever order the set yields them.
  (A Python set is finite; on a finite set \<open>\<Sum>\<close> is that sum.)
\<close>

definition sum_points :: "rel_points \<Rightarrow> int set \<Rightarrow> error + int" where
  "sum_points rel_points common =
     (if common \<subseteq> dom rel_points then Inr (\<Sum>rt\<in>common. the (rel_points rt))
      else Inl KeyError)"

text \<open>
  A \<^verbatim>\<open>for x in xs:\<close> loop whose body updates a state and may raise: the first
  exception leaves the loop.
\<close>

fun for_each :: "'a list \<Rightarrow> ('a \<Rightarrow> 's \<Rightarrow> error + 's) \<Rightarrow> 's \<Rightarrow> error + 's" where
  "for_each [] body s = Inr s"
| "for_each (x # xs) body s =
     (case body x s of Inl e \<Rightarrow> Inl e | Inr s' \<Rightarrow> for_each xs body s')"

text \<open>\<^verbatim>\<open>chars = sorted(chara_rel.keys())\<close>\<close>

definition chars_of :: "chara_rel \<Rightarrow> int list" where
  "chars_of chara_rel = sorted_list_of_set (dom chara_rel)"

section \<open>\<^verbatim>\<open>compute_affinity_scores\<close> (affinity.py)\<close>

subsection \<open>The pairwise cache \<^verbatim>\<open>aff2\<close>\<close>

text \<open>
  \<^verbatim>\<open>
  aff2 = {}
  for a in chars:
      rel_a = chara_rel[a]
      for b in chars:
          if a == b:
              continue
          rel_b = chara_rel[b]
          common = rel_a & rel_b
          if common:
              score = sum(rel_points[rt] for rt in common)
              if score != 0:
                  aff2[(a, b)] = score
  \<close>
\<close>

definition aff2_body ::
  "rel_points \<Rightarrow> chara_rel \<Rightarrow> int \<Rightarrow> int \<Rightarrow> aff2_cache \<Rightarrow> error + aff2_cache" where
  "aff2_body rel_points chara_rel a b aff2 =
     (if a = b then Inr aff2
      else
        let rel_a = chara_rel_get chara_rel a;
            rel_b = chara_rel_get chara_rel b;
            common = rel_a \<inter> rel_b
        in if common \<noteq> {} then
             (case sum_points rel_points common of
                Inl e \<Rightarrow> Inl e
              | Inr score \<Rightarrow> if score \<noteq> 0 then Inr (aff2((a, b) \<mapsto> score)) else Inr aff2)
           else Inr aff2)"

definition build_aff2 ::
  "rel_points \<Rightarrow> chara_rel \<Rightarrow> int list \<Rightarrow> error + aff2_cache" where
  "build_aff2 rel_points chara_rel chars =
     for_each chars (\<lambda>a. for_each chars (aff2_body rel_points chara_rel a)) Map.empty"

subsection \<open>The triple cache \<^verbatim>\<open>aff3\<close>\<close>

text \<open>
  \<^verbatim>\<open>
  aff3 = {}
  for a in chars:
      rel_a = chara_rel[a]
      for b in chars:
          if a == b:
              continue
          rel_b = chara_rel[b]
          ab_common = rel_a & rel_b
          if not ab_common:
              continue
          for c in chars:
              if c == b:
                  continue
              rel_c = chara_rel[c]
              common = ab_common & rel_c
              score = 0 if a == c else sum(rel_points[rt] for rt in common)
              aff3[(a, b, c)] = score
  \<close>
  The conditional expression evaluates the sum only when \<^verbatim>\<open>a != c\<close>.
\<close>

definition aff3_body ::
  "rel_points \<Rightarrow> chara_rel \<Rightarrow> int set \<Rightarrow> int \<Rightarrow> int \<Rightarrow> int \<Rightarrow> aff3_cache \<Rightarrow> error + aff3_cache" where
  "aff3_body rel_points chara_rel ab_common a b c aff3 =
     (if c = b then Inr aff3
      else
        let rel_c = chara_rel_get chara_rel c;
            common = ab_common \<inter> rel_c
        in case (if a = c then Inr 0 else sum_points rel_points common) of
             Inl e \<Rightarrow> Inl e
           | Inr score \<Rightarrow> Inr (aff3((a, b, c) \<mapsto> score)))"

definition aff3_pair ::
  "rel_points \<Rightarrow> chara_rel \<Rightarrow> int list \<Rightarrow> int \<Rightarrow> int \<Rightarrow> aff3_cache \<Rightarrow> error + aff3_cache" where
  "aff3_pair rel_points chara_rel chars a b aff3 =
     (if a = b then Inr aff3
      else
        let rel_a = chara_rel_get chara_rel a;
            rel_b = chara_rel_get chara_rel b;
            ab_common = rel_a \<inter> rel_b
        in if ab_common = {} then Inr aff3
           else for_each chars (aff3_body rel_points chara_rel ab_common a b) aff3)"

definition build_aff3 ::
  "rel_points \<Rightarrow> chara_rel \<Rightarrow> int list \<Rightarrow> error + aff3_cache" where
  "build_aff3 rel_points chara_rel chars =
     for_each chars (\<lambda>a. for_each chars (aff3_pair rel_points chara_rel chars a)) Map.empty"

subsection \<open>Cache lookups\<close>

text \<open>\<^verbatim>\<open>aff2.get((a, b), 0)\<close> and \<^verbatim>\<open>aff3.get((a, b, c), 0)\<close>\<close>

definition aff2_get :: "aff2_cache \<Rightarrow> int \<times> int \<Rightarrow> int" where
  "aff2_get aff2 k = (case aff2 k of None \<Rightarrow> 0 | Some score \<Rightarrow> score)"

definition aff3_get :: "aff3_cache \<Rightarrow> int \<times> int \<times> int \<Rightarrow> int" where
  "aff3_get aff3 k = (case aff3 k of None \<Rightarrow> 0 | Some score \<Rightarrow> score)"

subsection \<open>The table\<close>

text \<open>
  \<^verbatim>\<open>
  affinity_array = []
  for chara_id in range(1001, max_char_id + 1):
      if chara_id not in chara_rel or chara_id == main:
          affinity_array.append(0)
      else:
          score = (aff2.get((chara_id, main), 0) +
                  aff3.get((chara_id, main, left), 0) +
                  aff3.get((chara_id, main, right), 0))
          affinity_array.append(score)
  \<close>
  One element is appended per id of the range, so the loop is a \<open>map\<close> over the range.
\<close>

definition slot_score ::
  "chara_rel \<Rightarrow> aff2_cache \<Rightarrow> aff3_cache \<Rightarrow> int \<Rightarrow> int \<Rightarrow> int \<Rightarrow> int \<Rightarrow> int" where
  "slot_score chara_rel aff2 aff3 main left right chara_id =
     (if chara_id \<notin> dom chara_rel \<or> chara_id = main then 0
      else aff2_get aff2 (chara_id, main) +
           aff3_get aff3 (chara_id, main, left) +
           aff3_get aff3 (chara_id, main, right))"

definition affinity_array ::
  "chara_rel \<Rightarrow> aff2_cache \<Rightarrow> aff3_cache \<Rightarrow> int \<Rightarrow> int \<Rightarrow> int \<Rightarrow> int \<Rightarrow> int list" where
  "affinity_array chara_rel aff2 aff3 max_char_id main left right =
     map (slot_score chara_rel aff2 aff3 main left right) [1001..max_char_id]"

text \<open>
  \<^verbatim>\<open>
  base_affinity = aff2.get((main, left), 0) + aff3.get((main, left, right), 0)
  ...
  result[(main, left, right)] = {
      'affinity_scores': affinity_array,
      'base_affinity': base_affinity
  }
  \<close>
\<close>

definition make_entry ::
  "chara_rel \<Rightarrow> aff2_cache \<Rightarrow> aff3_cache \<Rightarrow> int \<Rightarrow> int \<times> int \<times> int \<Rightarrow> affinity_entry" where
  "make_entry chara_rel aff2 aff3 max_char_id k =
     (case k of (main, left, right) \<Rightarrow>
        \<lparr> affinity_scores = affinity_array chara_rel aff2 aff3 max_char_id main left right,
          base_affinity = aff2_get aff2 (main, left) + aff3_get aff3 (main, left, right) \<rparr>)"

text \<open>
  \<^verbatim>\<open>
  result = {}
  for main in chars:
      for left in chars:
          if left == main:
              continue
          for right in chars:
              if right == main or right == left:
                  continue
              ...
              result[(main, left, right)] = {...}
  \<close>
  Nothing in these loops can raise: the lookups are \<^verbatim>\<open>.get\<close> with a default.
\<close>

definition build_table ::
  "chara_rel \<Rightarrow> int list \<Rightarrow> int \<Rightarrow> aff2_cache \<Rightarrow> aff3_cache \<Rightarrow> affinity_dict" where
  "build_table chara_rel chars max_char_id aff2 aff3 =
     fold (\<lambda>main. fold (\<lambda>left result.
             if left = main then result
             else fold (\<lambda>right result.
                    if right = main \<or> right = left then result
                    else result((main, left, right) \<mapsto>
                           make_entry chara_rel aff2 aff3 max_char_id (main, left, right)))
                  chars result)
           chars)
       chars Map.empty"

definition compute_affinity_scores ::
  "rel_points \<Rightarrow> chara_rel \<Rightarrow> int \<Rightarrow> error + affinity_dict" where
  "compute_affinity_scores rel_points chara_rel max_char_id =
     (let chars = chars_of chara_rel in
      case build_aff2 rel_points chara_rel chars of
        Inl e \<Rightarrow> Inl e
      | Inr aff2 \<Rightarrow>
          (case build_aff3 rel_points chara_rel chars of
             Inl e \<Rightarrow> Inl e
           | Inr aff3 \<Rightarrow> Inr (build_table chara_rel chars max_char_id aff2 aff3)))"

section \<open>The reference functions \<^verbatim>\<open>get_aff2\<close> and \<^verbatim>\<open>get_aff3\<close> (affinity\_test.py)\<close>

text \<open>
  \<^verbatim>\<open>
  def get_aff2(a, b):
      if a == b:
          return 0
      rel_a = chara_rel[a]
      rel_b = chara_rel[b]
      common = rel_a & rel_b
      return sum(rel_points[rt] for rt in common) if common else 0

  def get_aff3(a, b, c):
      if a == b:
          return 0
      rel_a = chara_rel[a]
      rel_b = chara_rel[b]
      ab_common = rel_a & rel_b
      if not ab_common:
          return 0
      rel_c = chara_rel[c]
      common = ab_common & rel_c
      return 0 if a == c else sum(rel_points[rt] for rt in common)
  \<close>
  Both close over the \<^verbatim>\<open>defaultdict(set)\<close> that \<^verbatim>\<open>load_data\<close> built, so a subscript at
  an absent id gives the empty set (and stores it, which changes no later subscript).
\<close>

definition get_aff2 ::
  "rel_points \<Rightarrow> chara_rel \<Rightarrow> int \<Rightarrow> int \<Rightarrow> error + int" where
  "get_aff2 rel_points chara_rel a b =
     (if a = b then Inr 0
      else
        let rel_a = chara_rel_get chara_rel a;
            rel_b = chara_rel_get chara_rel b;
            common = rel_a \<inter> rel_b
        in if common \<noteq> {} then sum_points rel_points common else Inr 0)"

definition get_aff3 ::
  "rel_points \<Rightarrow> chara_rel \<Rightarrow> int \<Rightarrow> int \<Rightarrow> int \<Rightarrow> error + int" where
  "get_aff3 rel_points chara_rel a b c =
     (if a = b then Inr 0
      else
        let rel_a = chara_rel_get chara_rel a;
            rel_b = chara_rel_get chara_rel b;
            ab_common = rel_a \<inter> rel_b
        in if ab_common = {} then Inr 0
           else
             let rel_c = chara_rel_get chara_rel c;
                 common = ab_common \<inter> rel_c
             in if a = c then Inr 0 else sum_points rel_points common)"

section \<open>\<^verbatim>\<open>calculate_affinity\<close> (affinity\_test.py)\<close>

text \<open>
  \<^verbatim>\<open>get_aff2\<close> and \<^verbatim>\<open>get_aff3\<close> are local functions of \<^verbatim>\<open>calculate_affinity\<close>, defined after
  its checks, and \<^verbatim>\<open>calculate_affinity\<close> is their only caller.
  \<^verbatim>\<open>
  def get_affinity_level(score: int) -> int:
      if score >= 110:
          return 4
      elif score >= 60:
          return 3
      elif score >= 10:
          return 2
      else:
          return 1
  \<close>
\<close>

definition get_affinity_level :: "int \<Rightarrow> int" where
  "get_affinity_level score =
     (if score \<ge> 110 then 4
      else if score \<ge> 60 then 3
      else if score \<ge> 10 then 2
      else 1)"

text \<open>
  The first loop of \<^verbatim>\<open>calculate_affinity\<close>, which leaves the function at the first id
  that is not a key:
  \<^verbatim>\<open>
  for char_id, name in chars_to_check:
      if char_id not in chara_rel:
          print(f"... Character ID {char_id} ({name}) not found in database")
          return None
  \<close>
\<close>

fun first_missing :: "(int \<times> string) list \<Rightarrow> chara_rel \<Rightarrow> (int \<times> string) option" where
  "first_missing [] chara_rel = None"
| "first_missing ((char_id, name) # chars_to_check) chara_rel =
     (if char_id \<notin> dom chara_rel then Some (char_id, name)
      else first_missing chars_to_check chara_rel)"

text \<open>
  Statements in sequence, where the first exception ends the sequence.
\<close>

definition then_err :: "error + 'a \<Rightarrow> ('a \<Rightarrow> error + 'b) \<Rightarrow> error + 'b" where
  "then_err r f = (case r of Inl e \<Rightarrow> Inl e | Inr v \<Rightarrow> f v)"

text \<open>
  \<^verbatim>\<open>calculate_affinity\<close> returns \<^verbatim>\<open>None\<close> on every path; what its caller gets is what
  it prints. That is either the line that an id was not found, with the id and its
  role, or the breakdown: the six components, the legacies' own affinity, the total,
  the level and, when an inheritable character was given, its total. What else is
  printed is display of these values (the character names, the level's symbol, the
  points missing for the next level, the inheritable character's single components)
  and is left out.
\<close>

record breakdown =
  components :: "int list"
  race_affinity :: int
  total_affinity :: int
  affinity_level :: int
  inheritable_score :: "int option"

datatype printed = NotFound int string | Breakdown breakdown

text \<open>
  The right side:
  \<^verbatim>\<open>
  comp4 = comp5 = comp6 = 0
  race_affinity = 0
  if has_right_side:
      comp4 = get_aff2(main_id, right_id)
      comp5 = get_aff3(main_id, right_id, right_left_id)
      comp6 = get_aff3(main_id, right_id, right_right_id)
      race_affinity = get_aff2(left_id, right_id)
  \<close>
\<close>

definition right_side ::
  "rel_points \<Rightarrow> chara_rel \<Rightarrow> bool \<Rightarrow> int \<Rightarrow> int \<Rightarrow> int \<Rightarrow> int \<Rightarrow> int \<Rightarrow>
     error + (int \<times> int \<times> int \<times> int)" where
  "right_side rel_points chara_rel has_right_side main_id left_id right_id right_left_id
       right_right_id =
     (if has_right_side then
        then_err (get_aff2 rel_points chara_rel main_id right_id) (\<lambda>comp4.
        then_err (get_aff3 rel_points chara_rel main_id right_id right_left_id) (\<lambda>comp5.
        then_err (get_aff3 rel_points chara_rel main_id right_id right_right_id) (\<lambda>comp6.
        then_err (get_aff2 rel_points chara_rel left_id right_id) (\<lambda>race_affinity.
        Inr (comp4, comp5, comp6, race_affinity)))))
      else Inr (0, 0, 0, 0))"

text \<open>
  The inheritable character:
  \<^verbatim>\<open>
  if inheritable_id is not None:
      inh_comp1 = get_aff2(inheritable_id, main_id)
      inh_comp2 = get_aff3(inheritable_id, main_id, left_id)
      inheritable_score = inh_comp1 + inh_comp2
      if has_right_side:
          inh_comp3 = get_aff3(inheritable_id, main_id, right_id)
          inheritable_score += inh_comp3
  \<close>
\<close>

definition inheritable_part ::
  "rel_points \<Rightarrow> chara_rel \<Rightarrow> bool \<Rightarrow> int \<Rightarrow> int \<Rightarrow> int \<Rightarrow> int option \<Rightarrow>
     error + int option" where
  "inheritable_part rel_points chara_rel has_right_side main_id left_id right_id inheritable_id =
     (case inheritable_id of
        None \<Rightarrow> Inr None
      | Some inh \<Rightarrow>
          then_err (get_aff2 rel_points chara_rel inh main_id) (\<lambda>inh_comp1.
          then_err (get_aff3 rel_points chara_rel inh main_id left_id) (\<lambda>inh_comp2.
          if has_right_side then
            then_err (get_aff3 rel_points chara_rel inh main_id right_id) (\<lambda>inh_comp3.
            Inr (Some (inh_comp1 + inh_comp2 + inh_comp3)))
          else Inr (Some (inh_comp1 + inh_comp2)))))"

text \<open>
  The part of \<^verbatim>\<open>calculate_affinity\<close> after its checks.
\<close>

definition calculate_scores ::
  "rel_points \<Rightarrow> chara_rel \<Rightarrow> bool \<Rightarrow> int \<Rightarrow> int \<Rightarrow> int \<Rightarrow> int \<Rightarrow> int \<Rightarrow> int \<Rightarrow> int \<Rightarrow>
     int option \<Rightarrow> error + printed" where
  "calculate_scores rel_points chara_rel has_right_side main_id left_id left_left_id
       left_right_id right_id right_left_id right_right_id inheritable_id =
     then_err (get_aff2 rel_points chara_rel main_id left_id) (\<lambda>comp1.
     then_err (get_aff3 rel_points chara_rel main_id left_id left_left_id) (\<lambda>comp2.
     then_err (get_aff3 rel_points chara_rel main_id left_id left_right_id) (\<lambda>comp3.
     then_err (right_side rel_points chara_rel has_right_side main_id left_id right_id
                 right_left_id right_right_id) (\<lambda>(comp4, comp5, comp6, race).
     let total = comp1 + comp2 + comp3 + comp4 + comp5 + comp6;
         level = get_affinity_level total
     in then_err (inheritable_part rel_points chara_rel has_right_side main_id left_id
                    right_id inheritable_id) (\<lambda>score.
        Inr (Breakdown
               \<lparr> components = [comp1, comp2, comp3, comp4, comp5, comp6],
                 race_affinity = race,
                 total_affinity = total,
                 affinity_level = level,
                 inheritable_score = score \<rparr>))))))"

text \<open>
  \<^verbatim>\<open>
  chars_to_check = [(main_id, "main"), (left_id, "Legacy 1 (left)"),
                    (left_left_id, "Sub-Legacy 1-1"), (left_right_id, "Sub-Legacy 1-2")]
  has_right_side = right_id != 0
  if has_right_side:
      chars_to_check.extend([(right_id, "Legacy 2 (right)"),
                             (right_left_id, "Sub-Legacy 2-1"),
                             (right_right_id, "Sub-Legacy 2-2")])
  for char_id, name in chars_to_check: ...
  if inheritable_id is not None and inheritable_id not in chara_rel:
      print(f"... Character ID {inheritable_id} (inheritable) not found in database")
      return None
  ...
  comp1 = get_aff2(main_id, left_id)
  comp2 = get_aff3(main_id, left_id, left_left_id)
  comp3 = get_aff3(main_id, left_id, left_right_id)
  ...
  total_affinity = comp1 + comp2 + comp3 + comp4 + comp5 + comp6
  affinity_level = get_affinity_level(total_affinity)
  \<close>
  Both checks come before the first score is computed. A \<^verbatim>\<open>KeyError\<close> of a score leaves
  the function as an exception.
\<close>

definition calculate_affinity ::
  "int \<Rightarrow> int \<Rightarrow> int \<Rightarrow> int \<Rightarrow> int \<Rightarrow> int \<Rightarrow> int \<Rightarrow> int option \<Rightarrow> rel_points \<Rightarrow> chara_rel \<Rightarrow>
     error + printed" where
  "calculate_affinity main_id left_id left_left_id left_right_id right_id right_left_id
       right_right_id inheritable_id rel_points chara_rel =
     (let has_right_side = (right_id \<noteq> 0);
          chars_to_check =
            [(main_id, ''main''), (left_id, ''Legacy 1 (left)''),
             (left_left_id, ''Sub-Legacy 1-1''), (left_right_id, ''Sub-Legacy 1-2'')] @
            (if has_right_side
             then [(right_id, ''Legacy 2 (right)''), (right_left_id, ''Sub-Legacy 2-1''),
                   (right_right_id, ''Sub-Legacy 2-2'')]
             else [])
      in case first_missing chars_to_check chara_rel of
           Some (char_id, name) \<Rightarrow> Inr (NotFound char_id name)
         | None \<Rightarrow>
             (case inheritable_id of
                Some inh \<Rightarrow>
                  if inh \<notin> dom chara_rel then Inr (NotFound inh ''inheritable'')
                  else calculate_scores rel_points chara_rel has_right_side main_id left_id
                         left_left_id left_right_id right_id right_left_id right_right_id
                         inheritable_id
              | None \<Rightarrow>
                  calculate_scores rel_points chara_rel has_right_side main_id left_id
                    left_left_id left_right_id right_id right_left_id right_right_id
                    inheritable_id))"

section \<open>\<^verbatim>\<open>check_for_data_changes\<close> (affinity.py)\<close>

text \<open>
  A file the run reads is absent (\<^verbatim>\<open>os.path.exists\<close> is false), or opening, decoding or
  parsing it raises, or it yields a value.
\<close>

datatype 'a on_disk = Absent | Unreadable | Readable 'a

text \<open>
  The previous run's \<^verbatim>\<open>data/affinity_definitions.json\<close>, after
  \<^verbatim>\<open>
  prev_rel_points = {int(k): v for k, v in prev_data.get('rel_points', {}).items()}
  prev_chara_rel = {int(k): set(v) for k, v in prev_data.get('chara_rel', {}).items()}
  \<close>
  The first is only compared as a whole; the second is iterated by \<^verbatim>\<open>.items()\<close>, so it
  is kept as the list of its items. The model covers files of the shape that
  \<^verbatim>\<open>export_json\<close> writes (an object of two objects, integer keys and values); a missing
  section is the empty dictionary, as the \<^verbatim>\<open>.get(..., {})\<close> default makes it.
\<close>

record snapshot =
  prev_rel_points :: rel_points
  prev_chara_rel :: "(int \<times> int set) list"

text \<open>
  \<^verbatim>\<open>
  for char_id, prev_rels in prev_chara_rel.items():
      if char_id not in current_chara_rel:
          return True
      curr_rels = current_chara_rel[char_id]
      if prev_rels != curr_rels:
          return True
  return False
  \<close>
\<close>

fun chara_rel_changed :: "(int \<times> int set) list \<Rightarrow> chara_rel \<Rightarrow> bool" where
  "chara_rel_changed [] current_chara_rel = False"
| "chara_rel_changed ((char_id, prev_rels) # items) current_chara_rel =
     (case current_chara_rel char_id of
        None \<Rightarrow> True
      | Some curr_rels \<Rightarrow>
          if prev_rels \<noteq> curr_rels then True
          else chara_rel_changed items current_chara_rel)"

text \<open>
  \<^verbatim>\<open>
  if not os.path.exists(path):
      return False
  try:
      with open(path, 'r', encoding='utf-8') as f:
          prev_data = json.load(f)
  except Exception:
      return False
  ...
  if prev_rel_points != current_rel_points:
      return True
  \<close>
  \<open>Unreadable\<close> is any exception of \<^verbatim>\<open>open\<close> or \<^verbatim>\<open>json.load\<close>.
\<close>

definition check_for_data_changes ::
  "snapshot on_disk \<Rightarrow> rel_points \<Rightarrow> chara_rel \<Rightarrow> bool" where
  "check_for_data_changes definitions_file current_rel_points current_chara_rel =
     (case definitions_file of
        Absent \<Rightarrow> False
      | Unreadable \<Rightarrow> False
      | Readable prev_data \<Rightarrow>
          if prev_rel_points prev_data \<noteq> current_rel_points then True
          else chara_rel_changed (prev_chara_rel prev_data) current_chara_rel)"

section \<open>\<^verbatim>\<open>get_last_processed_character\<close> and \<^verbatim>\<open>main\<close> (affinity.py)\<close>

text \<open>
  \<^verbatim>\<open>
  if not os.path.exists(migration_path):
      return None
  with open(migration_path, 'r', encoding='utf-8') as f:
      content = f.read()
      match = re.search(r'--\s+Last character:\s+(\d+)', content)
      if match:
          return int(match.group(1))
  return None
  \<close>
  The file's text enters the model as what the regular expression finds in it: the
  number of the first \<^verbatim>\<open>-- Last character:\<close> line, or \<open>None\<close> when no line matches.
  There is no \<^verbatim>\<open>try\<close> around \<^verbatim>\<open>open\<close> and \<^verbatim>\<open>read\<close>: their exception leaves the function.
\<close>

definition get_last_processed_character :: "int option on_disk \<Rightarrow> error + int option" where
  "get_last_processed_character migration_file =
     (case migration_file of
        Absent \<Rightarrow> Inr None
      | Unreadable \<Rightarrow> Inl ReadError
      | Readable found \<Rightarrow> Inr found)"

text \<open>
  The decision of \<^verbatim>\<open>main\<close>:
  \<^verbatim>\<open>
  if last_char:
      data_changed = check_for_data_changes(rel_points, chara_rel)
      if last_char >= max_char_id and not data_changed:
          return
      new_char_ids = list(range(last_char + 1, max_char_id + 1))
      is_incremental = True
  else:
      new_char_ids = []
      is_incremental = False
  \<close>
  \<^verbatim>\<open>if last_char:\<close> is false for \<^verbatim>\<open>None\<close> and for \<open>0\<close>. The outcome is either the early
  return or the pair \<^verbatim>\<open>(new_char_ids, is_incremental)\<close>.
\<close>

datatype plan = UpToDate | Generate "int list" bool

definition plan_update ::
  "int option \<Rightarrow> snapshot on_disk \<Rightarrow> rel_points \<Rightarrow> chara_rel \<Rightarrow> int \<Rightarrow> plan" where
  "plan_update last_char definitions_file rel_points chara_rel max_char_id =
     (case last_char of
        None \<Rightarrow> Generate [] False
      | Some n \<Rightarrow>
          if n = 0 then Generate [] False
          else
            let data_changed = check_for_data_changes definitions_file rel_points chara_rel
            in if n \<ge> max_char_id \<and> \<not> data_changed then UpToDate
               else Generate [n + 1..max_char_id] True)"

text \<open>
  The index statements at the end of the script:
  \<^verbatim>\<open>
  if is_incremental:
      for char_id in new_char_ids:
          if char_id in chara_rel:
              f.write(f"DROP INDEX IF EXISTS idx_inheritance_total_affinity_{char_id};\n")
              f.write(f"CREATE INDEX CONCURRENTLY idx_inheritance_total_affinity_{char_id} ...")
  else:
      for char_id in chars:
          f.write(f"DROP INDEX IF EXISTS idx_inheritance_total_affinity_{char_id};\n")
          f.write(f"CREATE INDEX CONCURRENTLY idx_inheritance_total_affinity_{char_id} ...")
      f.write("DROP INDEX IF EXISTS idx_inheritance_default_affinity;\n")
      f.write("CREATE INDEX CONCURRENTLY idx_inheritance_default_affinity \n")
  \<close>
  \<open>index_char_ids\<close> lists the character ids whose index is dropped and created, in the
  order of the statements.
\<close>

definition index_char_ids ::
  "bool \<Rightarrow> int list \<Rightarrow> chara_rel \<Rightarrow> int list \<Rightarrow> int list" where
  "index_char_ids is_incremental new_char_ids chara_rel chars =
     (if is_incremental then filter (\<lambda>char_id. char_id \<in> dom chara_rel) new_char_ids
      else chars)"

text \<open>
  The script \<^verbatim>\<open>affinity_migration.sql\<close> as \<^verbatim>\<open>main\<close> writes it, by its parts: the header's
  type and \<^verbatim>\<open>-- Last character:\<close> line, the array length, one \<^verbatim>\<open>UPDATE\<close> per item of
  \<^verbatim>\<open>affinity_data\<close>, the per-character index statements and whether the default index
  on \<^verbatim>\<open>base_affinity\<close> is recreated.
\<close>

record migration =
  mig_incremental :: bool
  mig_last_character :: int
  mig_array_length :: int
  mig_updates :: affinity_dict
  mig_index_ids :: "int list"
  mig_default_index :: bool

text \<open>
  What a run leaves on disk, in the order written: \<^verbatim>\<open>export_json\<close> writes the
  definitions (the next run's snapshot), then the script is written. (\<^verbatim>\<open>export_saddle_data\<close>
  copies an unrelated table between the two and is left out.)
\<close>

datatype written = Definitions rel_points chara_rel int | Migration migration

datatype exit = Returned | Raised error

text \<open>
  The run's inputs: whether the master database exists, the two dictionaries
  \<^verbatim>\<open>load_data\<close> reads from it, and the two files of the previous run.
\<close>

record env =
  sqlite_exists :: bool
  master_rel_points :: rel_points
  master_chara_rel :: chara_rel
  migration_file :: "int option on_disk"
  definitions_file :: "snapshot on_disk"

text \<open>
  \<^verbatim>\<open>main\<close>, as the way it ends and the files it has written by then. Every \<^verbatim>\<open>return\<close>
  and every exception before \<^verbatim>\<open>export_json\<close> leaves nothing written.
  \<^verbatim>\<open>
  if not os.path.exists(sqlite_path):
      return
  rel_points, chara_rel = load_data(sqlite_path)
  chars = sorted(chara_rel.keys())
  max_char_id = max(chars)
  last_char = get_last_processed_character()
  ... (the decision above)
  affinity_data = compute_affinity_scores(rel_points, chara_rel, max_char_id)
  export_json(rel_points, chara_rel, max_char_id)
  array_length = max_char_id - 1001 + 1
  with open(migration_path, "w", encoding="utf-8") as f:
      ...
  \<close>
\<close>

definition main :: "env \<Rightarrow> exit \<times> written list" where
  "main e =
     (if \<not> sqlite_exists e then (Returned, [])
      else
        let rel_points = master_rel_points e;
            chara_rel = master_chara_rel e;
            chars = chars_of chara_rel
        in if chars = [] then (Raised ValueError, [])
           else
             let max_char_id = Max (set chars) in
             case get_last_processed_character (migration_file e) of
               Inl err \<Rightarrow> (Raised err, [])
             | Inr last_char \<Rightarrow>
                 (case plan_update last_char (definitions_file e) rel_points chara_rel max_char_id of
                    UpToDate \<Rightarrow> (Returned, [])
                  | Generate new_char_ids is_incremental \<Rightarrow>
                      (case compute_affinity_scores rel_points chara_rel max_char_id of
                         Inl err \<Rightarrow> (Raised err, [])
                       | Inr affinity_data \<Rightarrow>
                           (Returned,
                            [Definitions rel_points chara_rel max_char_id,
                             Migration
                               \<lparr> mig_incremental = is_incremental,
                                 mig_last_character = max_char_id,
                                 mig_array_length = max_char_id - 1001 + 1,
                                 mig_updates = affinity_data,
                                 mig_index_ids =
                                   index_char_ids is_incremental new_char_ids chara_rel chars,
                                 mig_default_index = (\<not> is_incremental) \<rparr>]))))"

section \<open>Notation for the statements\<close>

text \<open>
  Shorthand used in lemmas only: the relation types two characters share, the points of
  a set of relation types, and the values the two caches hold at a key.
\<close>

abbreviation common_rels :: "chara_rel \<Rightarrow> int \<Rightarrow> int \<Rightarrow> int set" where
  "common_rels chara_rel a b \<equiv> chara_rel_get chara_rel a \<inter> chara_rel_get chara_rel b"

abbreviation total_points :: "rel_points \<Rightarrow> int set \<Rightarrow> int" where
  "total_points rel_points common \<equiv> (\<Sum>rt\<in>common. the (rel_points rt))"

abbreviation pair_total :: "rel_points \<Rightarrow> chara_rel \<Rightarrow> int \<times> int \<Rightarrow> int" where
  "pair_total rp cr \<equiv> (\<lambda>(a, b). total_points rp (common_rels cr a b))"

abbreviation triple_total :: "rel_points \<Rightarrow> chara_rel \<Rightarrow> int \<times> int \<times> int \<Rightarrow> int" where
  "triple_total rp cr \<equiv>
     (\<lambda>(a, b, c). if a = c then 0
                   else total_points rp (common_rels cr a b \<inter> chara_rel_get cr c))"

section \<open>Loops that fill a dictionary\<close>

text \<open>
  Every loop of \<^verbatim>\<open>compute_affinity_scores\<close> either raises or overrides the dictionary
  at the keys it visits, with a value that depends on the key alone. A loop whose body
  has this shape has it as a whole; the three loop nests are instances.
\<close>

lemma fold_override:
  assumes "\<And>x m. x \<in> set xs \<Longrightarrow> body x m = (\<lambda>k. if C x k then Some (V k) else m k)"
  shows "fold body xs m0 = (\<lambda>k. if (\<exists>x\<in>set xs. C x k) then Some (V k) else m0 k)"
  using assms
proof (induction xs arbitrary: m0)
  case Nil
  then show ?case by simp
next
  case (Cons x xs)
  have step: "body x m0 = (\<lambda>k. if C x k then Some (V k) else m0 k)"
    using Cons.prems by simp
  have "fold body xs (body x m0) =
          (\<lambda>k. if (\<exists>y\<in>set xs. C y k) then Some (V k) else body x m0 k)"
    using Cons.IH [of "body x m0"] Cons.prems by simp
  then show ?case
    by (auto simp: step fun_eq_iff)
qed

lemma for_each_override:
  assumes "\<And>x m. x \<in> set xs \<Longrightarrow>
             body x m = (if B x then Inl KeyError
                         else Inr (\<lambda>k. if C x k then Some (V k) else m k))"
  shows "for_each xs body m0 =
           (if (\<exists>x\<in>set xs. B x) then Inl KeyError
            else Inr (\<lambda>k. if (\<exists>x\<in>set xs. C x k) then Some (V k) else m0 k))"
  using assms
proof (induction xs arbitrary: m0)
  case Nil
  then show ?case by simp
next
  case (Cons x xs)
  have step: "body x m0 = (if B x then Inl KeyError
                           else Inr (\<lambda>k. if C x k then Some (V k) else m0 k))"
    using Cons.prems by simp
  show ?case
  proof (cases "B x")
    case True
    then show ?thesis by (simp add: step)
  next
    case False
    let ?m1 = "\<lambda>k. if C x k then Some (V k) else m0 k"
    have "for_each xs body ?m1 =
            (if (\<exists>y\<in>set xs. B y) then Inl KeyError
             else Inr (\<lambda>k. if (\<exists>y\<in>set xs. C y k) then Some (V k) else ?m1 k))"
      using Cons.IH [of ?m1] Cons.prems by simp
    with False show ?thesis
      by (auto simp: step fun_eq_iff)
  qed
qed

subsection \<open>The three loop nests in closed form\<close>

lemma aff2_body_shape:
  "aff2_body rp cr a b m =
     (if a \<noteq> b \<and> \<not> common_rels cr a b \<subseteq> dom rp then Inl KeyError
      else Inr (\<lambda>k. if a \<noteq> b \<and> common_rels cr a b \<noteq> {} \<and>
                        total_points rp (common_rels cr a b) \<noteq> 0 \<and> k = (a, b)
                     then Some (pair_total rp cr k)
                     else m k))"
  by (auto simp: aff2_body_def sum_points_def Let_def fun_eq_iff)

lemma build_aff2_closed:
  "build_aff2 rp cr chars =
     (if \<exists>a\<in>set chars. \<exists>b\<in>set chars. a \<noteq> b \<and> \<not> common_rels cr a b \<subseteq> dom rp
      then Inl KeyError
      else Inr (\<lambda>k. if \<exists>a\<in>set chars. \<exists>b\<in>set chars. a \<noteq> b \<and> common_rels cr a b \<noteq> {} \<and>
                        total_points rp (common_rels cr a b) \<noteq> 0 \<and> k = (a, b)
                     then Some (pair_total rp cr k)
                     else None))"
  unfolding build_aff2_def
  by (rule for_each_override, rule for_each_override, rule aff2_body_shape)

lemma aff3_body_shape:
  "aff3_body rp cr (common_rels cr a b) a b c m =
     (if c \<noteq> b \<and> a \<noteq> c \<and> \<not> common_rels cr a b \<inter> chara_rel_get cr c \<subseteq> dom rp
      then Inl KeyError
      else Inr (\<lambda>k. if c \<noteq> b \<and> k = (a, b, c) then Some (triple_total rp cr k) else m k))"
  by (auto simp: aff3_body_def sum_points_def Let_def fun_eq_iff)

lemma aff3_pair_shape:
  "aff3_pair rp cr chars a b m =
     (if a \<noteq> b \<and> common_rels cr a b \<noteq> {} \<and>
         (\<exists>c\<in>set chars. c \<noteq> b \<and> a \<noteq> c \<and>
            \<not> common_rels cr a b \<inter> chara_rel_get cr c \<subseteq> dom rp)
      then Inl KeyError
      else Inr (\<lambda>k. if a \<noteq> b \<and> common_rels cr a b \<noteq> {} \<and>
                        (\<exists>c\<in>set chars. c \<noteq> b \<and> k = (a, b, c))
                     then Some (triple_total rp cr k) else m k))"
proof (cases "a \<noteq> b \<and> common_rels cr a b \<noteq> {}")
  case False
  then show ?thesis
    by (auto simp: aff3_pair_def Let_def)
next
  case True
  have "for_each chars (aff3_body rp cr (common_rels cr a b) a b) m =
          (if \<exists>c\<in>set chars. c \<noteq> b \<and> a \<noteq> c \<and>
                \<not> common_rels cr a b \<inter> chara_rel_get cr c \<subseteq> dom rp
           then Inl KeyError
           else Inr (\<lambda>k. if \<exists>c\<in>set chars. c \<noteq> b \<and> k = (a, b, c)
                          then Some (triple_total rp cr k) else m k))"
    by (rule for_each_override, rule aff3_body_shape)
  with True show ?thesis
    by (simp add: aff3_pair_def Let_def)
qed

lemma build_aff3_closed:
  "build_aff3 rp cr chars =
     (if \<exists>a\<in>set chars. \<exists>b\<in>set chars. a \<noteq> b \<and> common_rels cr a b \<noteq> {} \<and>
           (\<exists>c\<in>set chars. c \<noteq> b \<and> a \<noteq> c \<and>
              \<not> common_rels cr a b \<inter> chara_rel_get cr c \<subseteq> dom rp)
      then Inl KeyError
      else Inr (\<lambda>k. if \<exists>a\<in>set chars. \<exists>b\<in>set chars. a \<noteq> b \<and> common_rels cr a b \<noteq> {} \<and>
                        (\<exists>c\<in>set chars. c \<noteq> b \<and> k = (a, b, c))
                     then Some (triple_total rp cr k) else None))"
  unfolding build_aff3_def
  by (rule for_each_override, rule for_each_override, rule aff3_pair_shape)

lemma build_table_closed:
  "build_table cr chars M aff2 aff3 =
     (\<lambda>k. if \<exists>main\<in>set chars. \<exists>left\<in>set chars. left \<noteq> main \<and>
               (\<exists>right\<in>set chars. right \<noteq> main \<and> right \<noteq> left \<and> k = (main, left, right))
           then Some (make_entry cr aff2 aff3 M k) else None)"
proof -
  have inner: "\<And>main left m.
      fold (\<lambda>right result.
              if right = main \<or> right = left then result
              else result((main, left, right) \<mapsto> make_entry cr aff2 aff3 M (main, left, right)))
           chars m =
      (\<lambda>k. if \<exists>right\<in>set chars. right \<noteq> main \<and> right \<noteq> left \<and> k = (main, left, right)
            then Some (make_entry cr aff2 aff3 M k) else m k)"
    by (rule fold_override) (auto simp: fun_eq_iff)
  have middle: "\<And>main left m.
      (if left = main then m
       else fold (\<lambda>right result.
              if right = main \<or> right = left then result
              else result((main, left, right) \<mapsto> make_entry cr aff2 aff3 M (main, left, right)))
            chars m) =
      (\<lambda>k. if left \<noteq> main \<and>
               (\<exists>right\<in>set chars. right \<noteq> main \<and> right \<noteq> left \<and> k = (main, left, right))
            then Some (make_entry cr aff2 aff3 M k) else m k)"
    by (simp add: inner)
  show ?thesis
    unfolding build_table_def
    by (rule fold_override, rule fold_override, rule middle)
qed

subsection \<open>What the caches hold, and what the reference functions return\<close>

lemma set_chars_of: "finite (dom cr) \<Longrightarrow> set (chars_of cr) = dom cr"
  by (simp add: chars_of_def)

lemma aff2_get_built:
  assumes "build_aff2 rp cr chars = Inr aff2"
  shows "aff2_get aff2 (a, b) =
           (if a \<in> set chars \<and> b \<in> set chars \<and> a \<noteq> b
            then total_points rp (common_rels cr a b) else 0)"
proof -
  have "aff2 = (\<lambda>k. if \<exists>a\<in>set chars. \<exists>b\<in>set chars. a \<noteq> b \<and> common_rels cr a b \<noteq> {} \<and>
                        total_points rp (common_rels cr a b) \<noteq> 0 \<and> k = (a, b)
                     then Some (pair_total rp cr k) else None)"
    using assms by (simp add: build_aff2_closed split: if_splits)
  then show ?thesis
    by (auto simp: aff2_get_def)
qed

lemma build_aff2_weights:
  assumes "build_aff2 rp cr chars = Inr aff2"
    and "a \<in> set chars" and "b \<in> set chars" and "a \<noteq> b"
  shows "common_rels cr a b \<subseteq> dom rp"
proof (rule ccontr)
  assume "\<not> common_rels cr a b \<subseteq> dom rp"
  with assms(2-4) have "build_aff2 rp cr chars = Inl KeyError"
    unfolding build_aff2_closed by auto
  with assms(1) show False by simp
qed

lemma aff3_get_built:
  assumes "build_aff3 rp cr chars = Inr aff3"
  shows "aff3_get aff3 (a, b, c) =
           (if a \<in> set chars \<and> b \<in> set chars \<and> c \<in> set chars \<and> a \<noteq> b \<and> c \<noteq> b \<and>
               common_rels cr a b \<noteq> {}
            then triple_total rp cr (a, b, c) else 0)"
proof -
  have "aff3 = (\<lambda>k. if \<exists>a\<in>set chars. \<exists>b\<in>set chars. a \<noteq> b \<and> common_rels cr a b \<noteq> {} \<and>
                        (\<exists>c\<in>set chars. c \<noteq> b \<and> k = (a, b, c))
                     then Some (triple_total rp cr k) else None)"
    using assms by (simp add: build_aff3_closed split: if_splits)
  then show ?thesis
    by (auto simp: aff3_get_def)
qed

lemma get_aff2_value:
  assumes "a \<noteq> b \<Longrightarrow> common_rels cr a b \<subseteq> dom rp"
  shows "get_aff2 rp cr a b = Inr (if a = b then 0 else total_points rp (common_rels cr a b))"
  using assms by (auto simp: get_aff2_def sum_points_def Let_def)

lemma get_aff3_value:
  assumes "a \<noteq> b \<Longrightarrow> common_rels cr a b \<subseteq> dom rp"
  shows "get_aff3 rp cr a b c =
           Inr (if a = b \<or> common_rels cr a b = {} then 0 else triple_total rp cr (a, b, c))"
proof -
  have "common_rels cr a b \<inter> chara_rel_get cr c \<subseteq> dom rp" if "a \<noteq> b"
    using assms that by blast
  then show ?thesis
    by (auto simp: get_aff3_def sum_points_def Let_def)
qed

lemma get_aff2_cached:
  assumes "build_aff2 rp cr chars = Inr aff2"
    and "a \<in> set chars" and "b \<in> set chars"
  shows "get_aff2 rp cr a b = Inr (aff2_get aff2 (a, b))"
proof -
  have w: "a \<noteq> b \<Longrightarrow> common_rels cr a b \<subseteq> dom rp"
    using build_aff2_weights [OF assms] .
  show ?thesis
    using assms(2,3) by (simp add: get_aff2_value [OF w] aff2_get_built [OF assms(1)])
qed

lemma get_aff3_cached:
  assumes "build_aff2 rp cr chars = Inr aff2"
    and "build_aff3 rp cr chars = Inr aff3"
    and "a \<in> set chars" and "b \<in> set chars" and "c \<in> set chars"
    and "b \<noteq> c"
  shows "get_aff3 rp cr a b c = Inr (aff3_get aff3 (a, b, c))"
proof -
  have w: "a \<noteq> b \<Longrightarrow> common_rels cr a b \<subseteq> dom rp"
    using build_aff2_weights [OF assms(1,3,4)] .
  show ?thesis
    using assms(3-6) by (auto simp: get_aff3_value [OF w] aff3_get_built [OF assms(2)])
qed

lemma compute_affinity_scores_Inr:
  assumes "compute_affinity_scores rp cr M = Inr result"
  obtains aff2 aff3 where
    "build_aff2 rp cr (chars_of cr) = Inr aff2"
    "build_aff3 rp cr (chars_of cr) = Inr aff3"
    "result = build_table cr (chars_of cr) M aff2 aff3"
  using assms
  by (auto simp: compute_affinity_scores_def Let_def split: sum.splits)

lemma build_table_lookup:
  "build_table cr chars M aff2 aff3 (m, l, r) =
     (if m \<in> set chars \<and> l \<in> set chars \<and> r \<in> set chars \<and>
         l \<noteq> m \<and> r \<noteq> m \<and> r \<noteq> l
      then Some (make_entry cr aff2 aff3 M (m, l, r)) else None)"
  by (auto simp: build_table_closed)

lemma length_affinity_array:
  "length (affinity_array cr aff2 aff3 M m l r) = nat (M - 1000)"
  by (simp add: affinity_array_def)

lemma nth_affinity_array:
  assumes "i < nat (M - 1000)"
  shows "affinity_array cr aff2 aff3 M m l r ! i =
           slot_score cr aff2 aff3 m l r (1001 + int i)"
  using assms by (simp add: affinity_array_def)

lemma build_aff3_no_new_error:
  assumes "build_aff2 rp cr chars = Inr aff2"
  shows "\<exists>aff3. build_aff3 rp cr chars = Inr aff3"
proof -
  have "common_rels cr a b \<inter> chara_rel_get cr c \<subseteq> dom rp"
    if "a \<in> set chars" "b \<in> set chars" "a \<noteq> b" for a b c
    using build_aff2_weights [OF assms that] by blast
  then show ?thesis
    unfolding build_aff3_closed by auto
qed

lemma compute_affinity_scores_raises:
  "(\<exists>e. compute_affinity_scores rp cr M = Inl e) \<longleftrightarrow>
   (\<exists>a\<in>set (chars_of cr). \<exists>b\<in>set (chars_of cr). a \<noteq> b \<and> \<not> common_rels cr a b \<subseteq> dom rp)"
proof (cases "build_aff2 rp cr (chars_of cr)")
  case (Inl e)
  then show ?thesis
    by (auto simp: compute_affinity_scores_def build_aff2_closed split: if_splits)
next
  case (Inr aff2)
  from build_aff3_no_new_error [OF Inr] obtain aff3
    where "build_aff3 rp cr (chars_of cr) = Inr aff3" ..
  with Inr show ?thesis
    by (auto simp: compute_affinity_scores_def build_aff2_closed split: if_splits)
qed

lemma compute_affinity_scores_error:
  "compute_affinity_scores rp cr M = Inl e \<Longrightarrow> e = KeyError"
  by (auto simp: compute_affinity_scores_def build_aff2_closed build_aff3_closed Let_def
           split: sum.splits if_splits)

lemma slot_score_built:
  assumes "build_aff2 rp cr chars = Inr aff2"
    and "build_aff3 rp cr chars = Inr aff3"
    and "set chars = dom cr"
    and "m \<in> set chars" and "l \<in> set chars" and "r \<in> set chars"
    and "l \<noteq> m" and "r \<noteq> m"
  shows "if candidate = m \<or> chara_rel_get cr candidate = {}
         then slot_score cr aff2 aff3 m l r candidate = 0
         else \<exists>x y z. get_aff2 rp cr candidate m = Inr x \<and>
                       get_aff3 rp cr candidate m l = Inr y \<and>
                       get_aff3 rp cr candidate m r = Inr z \<and>
                       slot_score cr aff2 aff3 m l r candidate = x + y + z"
proof (cases "candidate = m \<or> chara_rel_get cr candidate = {}")
  case True
  then show ?thesis
    by (auto simp: slot_score_def aff2_get_built [OF assms(1)] aff3_get_built [OF assms(2)])
next
  case False
  then have "cr candidate \<noteq> None"
    by (auto simp: chara_rel_get_def)
  then have mem: "candidate \<in> set chars"
    using assms(3) by auto
  have "slot_score cr aff2 aff3 m l r candidate =
          aff2_get aff2 (candidate, m) + aff3_get aff3 (candidate, m, l) +
          aff3_get aff3 (candidate, m, r)"
    using False mem assms(3) by (simp add: slot_score_def)
  with False show ?thesis
    using get_aff2_cached [OF assms(1) mem assms(4)]
      get_aff3_cached [OF assms(1,2) mem assms(4,5)]
      get_aff3_cached [OF assms(1,2) mem assms(4,6)] assms(7,8)
    by auto
qed

subsection \<open>When the computation raises, and what the run has written by then\<close>

lemma compute_affinity_scores_raises_KeyError:
  assumes "finite (dom cr)"
  shows "compute_affinity_scores rp cr M = Inl KeyError \<longleftrightarrow>
         (\<exists>a\<in>dom cr. \<exists>b\<in>dom cr. a \<noteq> b \<and> \<not> common_rels cr a b \<subseteq> dom rp)"
proof -
  have "compute_affinity_scores rp cr M = Inl KeyError \<longleftrightarrow>
        (\<exists>e. compute_affinity_scores rp cr M = Inl e)"
    using compute_affinity_scores_error by blast
  then show ?thesis
    by (simp only: compute_affinity_scores_raises set_chars_of [OF assms])
qed

lemma main_nothing_written:
  assumes "compute_affinity_scores (master_rel_points e) (master_chara_rel e)
             (Max (set (chars_of (master_chara_rel e)))) = Inl err"
  shows "snd (main e) = []"
  using assms
  by (simp add: main_def Let_def split: sum.splits plan.splits)

lemma main_first_run_raises:
  assumes "sqlite_exists e" and "chars_of (master_chara_rel e) \<noteq> []"
    and "migration_file e = Absent"
    and "compute_affinity_scores (master_rel_points e) (master_chara_rel e)
             (Max (set (chars_of (master_chara_rel e)))) = Inl err"
  shows "main e = (Raised err, [])"
  using assms
  by (simp add: main_def Let_def get_last_processed_character_def plan_update_def)


lemma main_previous_run:
  assumes "sqlite_exists e" and "chars_of (master_chara_rel e) \<noteq> []"
    and "migration_file e = Readable (Some N)" and "N \<noteq> 0"
  shows "main e =
     (let rel_points = master_rel_points e;
          chara_rel = master_chara_rel e;
          max_char_id = Max (set (chars_of chara_rel))
      in if max_char_id \<le> N \<and>
            \<not> check_for_data_changes (definitions_file e) rel_points chara_rel
         then (Returned, [])
         else
           case compute_affinity_scores rel_points chara_rel max_char_id of
             Inl err \<Rightarrow> (Raised err, [])
           | Inr affinity_data \<Rightarrow>
               (Returned,
                [Definitions rel_points chara_rel max_char_id,
                 Migration
                   \<lparr> mig_incremental = True,
                     mig_last_character = max_char_id,
                     mig_array_length = max_char_id - 1001 + 1,
                     mig_updates = affinity_data,
                     mig_index_ids =
                       filter (\<lambda>char_id. char_id \<in> dom chara_rel) [N + 1..max_char_id],
                     mig_default_index = False \<rparr>]))"
  using assms
  by (simp add: main_def Let_def get_last_processed_character_def plan_update_def
        index_char_ids_def split: sum.splits)


subsection \<open>The loop of the change detector\<close>

lemma chara_rel_changed_iff:
  "chara_rel_changed items cr \<longleftrightarrow> (\<exists>(char_id, prev_rels)\<in>set items. cr char_id \<noteq> Some prev_rels)"
proof (induction items)
  case Nil
  then show ?case by simp
next
  case (Cons item items)
  obtain char_id prev_rels where item: "item = (char_id, prev_rels)"
    by (cases item) auto
  show ?case
  proof (cases "cr char_id")
    case None
    then show ?thesis by (simp add: item)
  next
    case (Some curr_rels)
    show ?thesis
    proof (cases "prev_rels = curr_rels")
      case True
      then show ?thesis
        using Cons.IH Some by (simp add: item)
    next
      case False
      then show ?thesis
        using Some by (simp add: item)
    qed
  qed
qed


lemma chara_rel_changed_mem:
  "chara_rel_changed items cr \<longleftrightarrow> (\<exists>k s. (k, s) \<in> set items \<and> cr k \<noteq> Some s)"
  unfolding chara_rel_changed_iff by (simp add: Bex_def)

subsection \<open>The checks of \<^verbatim>\<open>calculate_affinity\<close>, and the lookups of the table\<close>






subsection \<open>A worked example\<close>

text \<open>
  Four characters, with a gap at 1004 and one character (1005) that shares no relation
  type with the others; every relation type has points.
\<close>

lemma example_chars:
  "chars_of [1001 \<mapsto> {1, 2}, 1002 \<mapsto> {1, 2}, 1003 \<mapsto> {2}, 1005 \<mapsto> {3}] =
     [1001, 1002, 1003, 1005]"
  by (simp add: chars_of_def)

lemma example_computes:
  "\<exists>result. compute_affinity_scores [1 \<mapsto> 10, 2 \<mapsto> 5, 3 \<mapsto> 7]
     [1001 \<mapsto> {1, 2}, 1002 \<mapsto> {1, 2}, 1003 \<mapsto> {2}, 1005 \<mapsto> {3}] M = Inr result"
proof -
  let ?rp = "[1 \<mapsto> 10, 2 \<mapsto> 5, 3 \<mapsto> 7] :: rel_points"
  let ?cr = "[1001 \<mapsto> {1, 2}, 1002 \<mapsto> {1, 2}, 1003 \<mapsto> {2}, 1005 \<mapsto> {3}] :: chara_rel"
  have "\<not> (\<exists>e. compute_affinity_scores ?rp ?cr M = Inl e)"
    unfolding compute_affinity_scores_raises example_chars
    by (simp add: chara_rel_get_def)
  then show ?thesis
    by (cases "compute_affinity_scores ?rp ?cr M") auto
qed

lemma example_entry:
  assumes "compute_affinity_scores rp
     [1001 \<mapsto> {1, 2}, 1002 \<mapsto> {1, 2}, 1003 \<mapsto> {2}, 1005 \<mapsto> {3}] M = Inr result"
  shows "\<exists>entry. result (1001, 1002, 1003) = Some entry"
proof -
  from assms obtain aff2 aff3 where
    "result = build_table [1001 \<mapsto> {1, 2}, 1002 \<mapsto> {1, 2}, 1003 \<mapsto> {2}, 1005 \<mapsto> {3}]
       (chars_of [1001 \<mapsto> {1, 2}, 1002 \<mapsto> {1, 2}, 1003 \<mapsto> {2}, 1005 \<mapsto> {3}]) M aff2 aff3"
    by (rule compute_affinity_scores_Inr)
  then show ?thesis
    by (simp add: build_table_lookup example_chars)
qed

lemma example_caches:
  "\<exists>aff2 aff3.
     build_aff2 [1 \<mapsto> 10, 2 \<mapsto> 5, 3 \<mapsto> 7]
       [1001 \<mapsto> {1, 2}, 1002 \<mapsto> {1, 2}, 1003 \<mapsto> {2}, 1005 \<mapsto> {3}]
       (chars_of [1001 \<mapsto> {1, 2}, 1002 \<mapsto> {1, 2}, 1003 \<mapsto> {2}, 1005 \<mapsto> {3}]) =
         Inr aff2 \<and>
     build_aff3 [1 \<mapsto> 10, 2 \<mapsto> 5, 3 \<mapsto> 7]
       [1001 \<mapsto> {1, 2}, 1002 \<mapsto> {1, 2}, 1003 \<mapsto> {2}, 1005 \<mapsto> {3}]
       (chars_of [1001 \<mapsto> {1, 2}, 1002 \<mapsto> {1, 2}, 1003 \<mapsto> {2}, 1005 \<mapsto> {3}]) =
         Inr aff3"
proof -
  obtain result where "compute_affinity_scores [1 \<mapsto> 10, 2 \<mapsto> 5, 3 \<mapsto> 7]
      [1001 \<mapsto> {1, 2}, 1002 \<mapsto> {1, 2}, 1003 \<mapsto> {2}, 1005 \<mapsto> {3}] 0 = Inr result"
    using example_computes [of 0] by blast
  then show ?thesis
    by (rule compute_affinity_scores_Inr) blast
qed

lemma example_main:
  "main \<lparr> sqlite_exists = True, master_rel_points = [1 \<mapsto> 10, 2 \<mapsto> 5, 3 \<mapsto> 7],
          master_chara_rel = [1001 \<mapsto> {1, 2}, 1002 \<mapsto> {1, 2}, 1003 \<mapsto> {2}, 1005 \<mapsto> {3}],
          migration_file = mf, definitions_file = df \<rparr> =
     (case get_last_processed_character mf of
        Inl err \<Rightarrow> (Raised err, [])
      | Inr last_char \<Rightarrow>
          (case plan_update last_char df [1 \<mapsto> 10, 2 \<mapsto> 5, 3 \<mapsto> 7]
                  [1001 \<mapsto> {1, 2}, 1002 \<mapsto> {1, 2}, 1003 \<mapsto> {2}, 1005 \<mapsto> {3}] 1005 of
             UpToDate \<Rightarrow> (Returned, [])
           | Generate new_char_ids is_incremental \<Rightarrow>
               (Returned,
                [Definitions [1 \<mapsto> 10, 2 \<mapsto> 5, 3 \<mapsto> 7]
                   [1001 \<mapsto> {1, 2}, 1002 \<mapsto> {1, 2}, 1003 \<mapsto> {2}, 1005 \<mapsto> {3}] 1005,
                 Migration
                   \<lparr> mig_incremental = is_incremental,
                     mig_last_character = 1005,
                     mig_array_length = 5,
                     mig_updates =
                       projr (compute_affinity_scores [1 \<mapsto> 10, 2 \<mapsto> 5, 3 \<mapsto> 7]
                                [1001 \<mapsto> {1, 2}, 1002 \<mapsto> {1, 2}, 1003 \<mapsto> {2}, 1005 \<mapsto> {3}] 1005),
                     mig_index_ids =
                       index_char_ids is_incremental new_char_ids
                         [1001 \<mapsto> {1, 2}, 1002 \<mapsto> {1, 2}, 1003 \<mapsto> {2}, 1005 \<mapsto> {3}]
                         [1001, 1002, 1003, 1005],
                     mig_default_index = (\<not> is_incremental) \<rparr>])))"
proof -
  obtain result where res: "compute_affinity_scores [1 \<mapsto> 10, 2 \<mapsto> 5, 3 \<mapsto> 7]
      [1001 \<mapsto> {1, 2}, 1002 \<mapsto> {1, 2}, 1003 \<mapsto> {2}, 1005 \<mapsto> {3}] 1005 = Inr result"
    using example_computes [of 1005] by blast
  show ?thesis
    by (simp add: main_def Let_def example_chars res split: sum.splits plan.splits)
qed

lemma example_calculate_affinity:
  "calculate_affinity 1001 1002 1003 1005 0 0 0 (Some 1003) [1 \<mapsto> 10, 2 \<mapsto> 5, 3 \<mapsto> 7]
     [1001 \<mapsto> {1, 2}, 1002 \<mapsto> {1, 2}, 1003 \<mapsto> {2}, 1005 \<mapsto> {3}] =
     Inr (Breakdown
            \<lparr> components = [15, 5, 0, 0, 0, 0], race_affinity = 0, total_affinity = 20,
              affinity_level = 2, inheritable_score = Some 10 \<rparr>)"
  by (simp add: calculate_affinity_def calculate_scores_def right_side_def
        inheritable_part_def then_err_def get_aff2_def get_aff3_def chara_rel_get_def
        sum_points_def get_affinity_level_def)

section \<open>Properties of the relation scores\<close>

text \<open>
  C8. The pairwise score is symmetric: \<^verbatim>\<open>get_aff2(a, b)\<close> and \<^verbatim>\<open>get_aff2(b, a)\<close> agree
  (as results, so also when a weight is missing and both raise), and in the cache that
  \<^verbatim>\<open>compute_affinity_scores\<close> builds the lookups at \<open>(a, b)\<close> and \<open>(b, a)\<close> agree.
\<close>

theorem aff2_symmetric:
  assumes "build_aff2 rp cr (chars_of cr) = Inr aff2"
  shows "get_aff2 rp cr a b = get_aff2 rp cr b a \<and>
         aff2_get aff2 (a, b) = aff2_get aff2 (b, a)"
proof -
  have "get_aff2 rp cr a b = get_aff2 rp cr b a"
    by (simp add: get_aff2_def Let_def Int_commute)
  moreover have "aff2_get aff2 (a, b) = aff2_get aff2 (b, a)"
    by (simp add: aff2_get_built [OF assms] Int_commute) 
  ultimately show ?thesis by simp
qed

theorem aff2_symmetric_witness:
  "\<exists>aff2. build_aff2 [1 \<mapsto> 10, 2 \<mapsto> 5] [1001 \<mapsto> {1, 2}, 1002 \<mapsto> {1, 2}, 1003 \<mapsto> {2}]
             (chars_of [1001 \<mapsto> {1, 2}, 1002 \<mapsto> {1, 2}, 1003 \<mapsto> {2}]) = Inr aff2 \<and>
          aff2_get aff2 (1001, 1003) = 5 \<and> aff2_get aff2 (1003, 1001) = 5 \<and>
          get_aff2 [1 \<mapsto> 10, 2 \<mapsto> 5] [1001 \<mapsto> {1, 2}, 1002 \<mapsto> {1, 2}, 1003 \<mapsto> {2}] 1001 1003 = Inr 5 \<and>
          get_aff2 [1 \<mapsto> 10, 2 \<mapsto> 5] [1001 \<mapsto> {1, 2}, 1002 \<mapsto> {1, 2}, 1003 \<mapsto> {2}] 1003 1001 = Inr 5"
proof -
  let ?rp = "[1 \<mapsto> 10, 2 \<mapsto> (5::int)] :: rel_points"
  let ?cr = "[1001 \<mapsto> {1, 2}, 1002 \<mapsto> {1, 2}, 1003 \<mapsto> {2}] :: chara_rel"
  have chars: "chars_of ?cr = [1001, 1002, 1003]"
    by (simp add: chars_of_def)
  obtain aff2 where built: "build_aff2 ?rp ?cr (chars_of ?cr) = Inr aff2"
    by (auto simp: build_aff2_closed chars chara_rel_get_def)
  have v: "aff2_get aff2 (1001, 1003) = 5"
    using built by (simp add: aff2_get_built [OF built] chars chara_rel_get_def)
  have g: "get_aff2 ?rp ?cr 1001 1003 = Inr 5"
    by (simp add: get_aff2_def chara_rel_get_def sum_points_def)
  from aff2_symmetric [OF built, of 1001 1003] built v g show ?thesis
    by auto
qed

text \<open>
  C7. When \<open>a\<close> and \<open>b\<close> share no relation type, the triple score of \<open>(a, b, c)\<close> is 0
  for every \<open>c\<close> and whatever \<open>c\<close>'s relation types are: \<^verbatim>\<open>get_aff3\<close> returns 0 without
  looking at \<open>c\<close>, and the cache holds no key \<open>(a, b, c)\<close>, so its lookup gives 0.
\<close>

theorem aff3_zero_without_pair_overlap:
  assumes "build_aff3 rp cr (chars_of cr) = Inr aff3"
    and "chara_rel_get cr a \<inter> chara_rel_get cr b = {}"
  shows "get_aff3 rp cr a b c = Inr 0 \<and> aff3_get aff3 (a, b, c) = 0"
  using assms(2)
  by (simp add: get_aff3_def Let_def aff3_get_built [OF assms(1)])

theorem aff3_zero_without_pair_overlap_witness:
  "\<exists>aff3.
     build_aff3 [1 \<mapsto> 10, 2 \<mapsto> 5, 3 \<mapsto> 7]
         [1001 \<mapsto> {1, 2}, 1002 \<mapsto> {1, 2}, 1003 \<mapsto> {2}, 1005 \<mapsto> {3}] (chars_of
         [1001 \<mapsto> {1, 2}, 1002 \<mapsto> {1, 2}, 1003 \<mapsto> {2}, 1005 \<mapsto> {3}]) = Inr aff3 \<and>
     chara_rel_get
         [1001 \<mapsto> {1, 2}, 1002 \<mapsto> {1, 2}, 1003 \<mapsto> {2}, 1005 \<mapsto> {3}] 1001 \<inter> chara_rel_get
         [1001 \<mapsto> {1, 2}, 1002 \<mapsto> {1, 2}, 1003 \<mapsto> {2}, 1005 \<mapsto> {3}] 1005 = {} \<and>
     get_aff3 [1 \<mapsto> 10, 2 \<mapsto> 5, 3 \<mapsto> 7]
         [1001 \<mapsto> {1, 2}, 1002 \<mapsto> {1, 2}, 1003 \<mapsto> {2}, 1005 \<mapsto> {3}] 1001 1005 1002 = Inr 0 \<and>
     aff3_get aff3 (1001, 1005, 1002) = 0"
proof -
  obtain aff3 where b3: "build_aff3 [1 \<mapsto> 10, 2 \<mapsto> 5, 3 \<mapsto> 7]
      [1001 \<mapsto> {1, 2}, 1002 \<mapsto> {1, 2}, 1003 \<mapsto> {2}, 1005 \<mapsto> {3}] (chars_of
      [1001 \<mapsto> {1, 2}, 1002 \<mapsto> {1, 2}, 1003 \<mapsto> {2}, 1005 \<mapsto> {3}]) = Inr aff3"
    using example_caches by blast
  have disjoint: "chara_rel_get
      [1001 \<mapsto> {1, 2}, 1002 \<mapsto> {1, 2}, 1003 \<mapsto> {2}, 1005 \<mapsto> {3}] 1001 \<inter> chara_rel_get
      [1001 \<mapsto> {1, 2}, 1002 \<mapsto> {1, 2}, 1003 \<mapsto> {2}, 1005 \<mapsto> {3}] 1005 = {}"
    by (simp add: chara_rel_get_def)
  from aff3_zero_without_pair_overlap [OF b3 disjoint, of 1002] b3 disjoint
  show ?thesis by blast
qed

text \<open>
  C10. For ids of the entity set, the cache lookups with default 0 return what the
  reference functions compute from the category sets: always for \<^verbatim>\<open>aff2\<close>, and for
  \<^verbatim>\<open>aff3\<close> at every triple whose second and third ids differ. The table builder only
  asks such questions: \<open>(main, left)\<close>, \<open>(chara_id, main)\<close>, \<open>(main, left, right)\<close>,
  \<open>(chara_id, main, left)\<close> and \<open>(chara_id, main, right)\<close>, with \<open>left\<close> and \<open>right\<close> different
  from \<open>main\<close> and from each other.
\<close>

theorem cache_lookups_agree_with_reference:
  assumes "finite (dom cr)"
    and "build_aff2 rp cr (chars_of cr) = Inr aff2"
    and "build_aff3 rp cr (chars_of cr) = Inr aff3"
    and "a \<in> dom cr" and "b \<in> dom cr" and "c \<in> dom cr"
    and "b \<noteq> c"
  shows "get_aff2 rp cr a b = Inr (aff2_get aff2 (a, b)) \<and>
         get_aff3 rp cr a b c = Inr (aff3_get aff3 (a, b, c))"
proof -
  have mem: "a \<in> set (chars_of cr)" "b \<in> set (chars_of cr)" "c \<in> set (chars_of cr)"
    using assms(1,4-6) by (simp_all add: set_chars_of)
  show ?thesis
    using get_aff2_cached [OF assms(2) mem(1,2)]
      get_aff3_cached [OF assms(2,3) mem assms(7)]
    by simp
qed

theorem cache_lookups_agree_with_reference_witness:
  "\<exists>aff2 aff3.
     build_aff2 [1 \<mapsto> 10, 2 \<mapsto> 5, 3 \<mapsto> 7]
         [1001 \<mapsto> {1, 2}, 1002 \<mapsto> {1, 2}, 1003 \<mapsto> {2}, 1005 \<mapsto> {3}] (chars_of
         [1001 \<mapsto> {1, 2}, 1002 \<mapsto> {1, 2}, 1003 \<mapsto> {2}, 1005 \<mapsto> {3}]) = Inr aff2 \<and>
     build_aff3 [1 \<mapsto> 10, 2 \<mapsto> 5, 3 \<mapsto> 7]
         [1001 \<mapsto> {1, 2}, 1002 \<mapsto> {1, 2}, 1003 \<mapsto> {2}, 1005 \<mapsto> {3}] (chars_of
         [1001 \<mapsto> {1, 2}, 1002 \<mapsto> {1, 2}, 1003 \<mapsto> {2}, 1005 \<mapsto> {3}]) = Inr aff3 \<and>
     get_aff2 [1 \<mapsto> 10, 2 \<mapsto> 5, 3 \<mapsto> 7]
         [1001 \<mapsto> {1, 2}, 1002 \<mapsto> {1, 2}, 1003 \<mapsto> {2}, 1005 \<mapsto> {3}] 1001 1002 = Inr 15 \<and> aff2_get aff2 (1001, 1002) = 15 \<and>
     get_aff3 [1 \<mapsto> 10, 2 \<mapsto> 5, 3 \<mapsto> 7]
         [1001 \<mapsto> {1, 2}, 1002 \<mapsto> {1, 2}, 1003 \<mapsto> {2}, 1005 \<mapsto> {3}] 1001 1002 1003 = Inr 5 \<and> aff3_get aff3 (1001, 1002, 1003) = 5"
proof -
  obtain aff2 aff3 where b2: "build_aff2 [1 \<mapsto> 10, 2 \<mapsto> 5, 3 \<mapsto> 7]
      [1001 \<mapsto> {1, 2}, 1002 \<mapsto> {1, 2}, 1003 \<mapsto> {2}, 1005 \<mapsto> {3}] (chars_of
      [1001 \<mapsto> {1, 2}, 1002 \<mapsto> {1, 2}, 1003 \<mapsto> {2}, 1005 \<mapsto> {3}]) = Inr aff2"
    and b3: "build_aff3 [1 \<mapsto> 10, 2 \<mapsto> 5, 3 \<mapsto> 7]
        [1001 \<mapsto> {1, 2}, 1002 \<mapsto> {1, 2}, 1003 \<mapsto> {2}, 1005 \<mapsto> {3}] (chars_of
        [1001 \<mapsto> {1, 2}, 1002 \<mapsto> {1, 2}, 1003 \<mapsto> {2}, 1005 \<mapsto> {3}]) = Inr aff3"
    using example_caches by blast
  have fin: "finite (dom [1001 \<mapsto> {1, 2}, 1002 \<mapsto> {1, 2}, 1003 \<mapsto> {2}, 1005 \<mapsto> {3}])" by simp
  have g2: "get_aff2 [1 \<mapsto> 10, 2 \<mapsto> 5, 3 \<mapsto> 7]
      [1001 \<mapsto> {1, 2}, 1002 \<mapsto> {1, 2}, 1003 \<mapsto> {2}, 1005 \<mapsto> {3}] 1001 1002 = Inr 15"
    by (simp add: get_aff2_def chara_rel_get_def sum_points_def)
  have g3: "get_aff3 [1 \<mapsto> 10, 2 \<mapsto> 5, 3 \<mapsto> 7]
      [1001 \<mapsto> {1, 2}, 1002 \<mapsto> {1, 2}, 1003 \<mapsto> {2}, 1005 \<mapsto> {3}] 1001 1002 1003 = Inr 5"
    by (simp add: get_aff3_def chara_rel_get_def sum_points_def)
  have "get_aff2 [1 \<mapsto> 10, 2 \<mapsto> 5, 3 \<mapsto> 7]
      [1001 \<mapsto> {1, 2}, 1002 \<mapsto> {1, 2}, 1003 \<mapsto> {2}, 1005 \<mapsto> {3}] 1001 1002 = Inr (aff2_get aff2 (1001, 1002)) \<and>
        get_aff3 [1 \<mapsto> 10, 2 \<mapsto> 5, 3 \<mapsto> 7]
            [1001 \<mapsto> {1, 2}, 1002 \<mapsto> {1, 2}, 1003 \<mapsto> {2}, 1005 \<mapsto> {3}] 1001 1002 1003 = Inr (aff3_get aff3 (1001, 1002, 1003))"
    by (rule cache_lookups_agree_with_reference [OF fin b2 b3]) simp_all
  with g2 g3 b2 b3 show ?thesis by auto
qed

text \<open>
  The restriction to different second and third ids is needed: the \<^verbatim>\<open>aff3\<close> loop skips
  \<^verbatim>\<open>c == b\<close>, so at \<open>(a, b, b)\<close> the lookup gives 0 where \<^verbatim>\<open>get_aff3\<close> gives the pair's
  points.
\<close>

lemma aff3_cache_skips_repeated_id:
  "\<exists>aff3.
     build_aff3 [1 \<mapsto> 10, 2 \<mapsto> 5, 3 \<mapsto> 7]
         [1001 \<mapsto> {1, 2}, 1002 \<mapsto> {1, 2}, 1003 \<mapsto> {2}, 1005 \<mapsto> {3}] (chars_of
         [1001 \<mapsto> {1, 2}, 1002 \<mapsto> {1, 2}, 1003 \<mapsto> {2}, 1005 \<mapsto> {3}]) = Inr aff3 \<and>
     get_aff3 [1 \<mapsto> 10, 2 \<mapsto> 5, 3 \<mapsto> 7]
         [1001 \<mapsto> {1, 2}, 1002 \<mapsto> {1, 2}, 1003 \<mapsto> {2}, 1005 \<mapsto> {3}] 1001 1002 1002 = Inr 15 \<and> aff3_get aff3 (1001, 1002, 1002) = 0"
proof -
  obtain aff3 where b3: "build_aff3 [1 \<mapsto> 10, 2 \<mapsto> 5, 3 \<mapsto> 7]
      [1001 \<mapsto> {1, 2}, 1002 \<mapsto> {1, 2}, 1003 \<mapsto> {2}, 1005 \<mapsto> {3}] (chars_of
      [1001 \<mapsto> {1, 2}, 1002 \<mapsto> {1, 2}, 1003 \<mapsto> {2}, 1005 \<mapsto> {3}]) = Inr aff3"
    using example_caches by blast
  have "get_aff3 [1 \<mapsto> 10, 2 \<mapsto> 5, 3 \<mapsto> 7]
      [1001 \<mapsto> {1, 2}, 1002 \<mapsto> {1, 2}, 1003 \<mapsto> {2}, 1005 \<mapsto> {3}] 1001 1002 1002 = Inr 15"
    by (simp add: get_aff3_def chara_rel_get_def sum_points_def)
  moreover have "aff3_get aff3 (1001, 1002, 1002) = 0"
    by (simp add: aff3_get_built [OF b3])
  ultimately show ?thesis using b3 by blast
qed

section \<open>Properties of the table\<close>

text \<open>
  C1. In every entry of the table built for the maximum id \<open>M\<close> (at least the base
  offset 1001), \<^verbatim>\<open>affinity_scores\<close> has \<open>M - 1001 + 1\<close> slots; slot \<open>i\<close> belongs to the id
  \<open>1001 + i\<close>, is 0 when that id is \<open>main\<close> or has no relation types (absent ids
  included), and is otherwise
  \<^verbatim>\<open>get_aff2(candidate, main) + get_aff3(candidate, main, left) + get_aff3(candidate, main, right)\<close>,
  all three of which return a value.
\<close>

theorem affinity_scores_dense:
  assumes "finite (dom cr)"
    and "compute_affinity_scores rp cr M = Inr result"
    and "result (m, l, r) = Some entry"
    and "1001 \<le> M"
  shows "int (length (affinity_scores entry)) = M - 1001 + 1 \<and>
         (\<forall>i<length (affinity_scores entry).
            let candidate = 1001 + int i in
            if candidate = m \<or> chara_rel_get cr candidate = {}
            then affinity_scores entry ! i = 0
            else \<exists>x y z. get_aff2 rp cr candidate m = Inr x \<and>
                          get_aff3 rp cr candidate m l = Inr y \<and>
                          get_aff3 rp cr candidate m r = Inr z \<and>
                          affinity_scores entry ! i = x + y + z)"
proof -
  from assms(2) obtain aff2 aff3 where
    b2: "build_aff2 rp cr (chars_of cr) = Inr aff2" and
    b3: "build_aff3 rp cr (chars_of cr) = Inr aff3" and
    res: "result = build_table cr (chars_of cr) M aff2 aff3"
    by (rule compute_affinity_scores_Inr)
  have dom: "set (chars_of cr) = dom cr"
    using assms(1) by (rule set_chars_of)
  from assms(3) have key: "m \<in> set (chars_of cr)" "l \<in> set (chars_of cr)"
      "r \<in> set (chars_of cr)" "l \<noteq> m" "r \<noteq> m"
    and entry: "entry = make_entry cr aff2 aff3 M (m, l, r)"
    by (auto simp: res build_table_lookup split: if_splits)
  have scores: "affinity_scores entry = affinity_array cr aff2 aff3 M m l r"
    by (simp add: entry make_entry_def)
  have len: "length (affinity_scores entry) = nat (M - 1000)"
    by (simp add: scores length_affinity_array)
  have "int (length (affinity_scores entry)) = M - 1001 + 1"
    using assms(4) by (simp add: len)
  moreover have "let candidate = 1001 + int i in
            if candidate = m \<or> chara_rel_get cr candidate = {}
            then affinity_scores entry ! i = 0
            else \<exists>x y z. get_aff2 rp cr candidate m = Inr x \<and>
                          get_aff3 rp cr candidate m l = Inr y \<and>
                          get_aff3 rp cr candidate m r = Inr z \<and>
                          affinity_scores entry ! i = x + y + z"
    if "i < length (affinity_scores entry)" for i
  proof -
    from that have "i < nat (M - 1000)"
      by (simp only: len)
    then have "affinity_scores entry ! i = slot_score cr aff2 aff3 m l r (1001 + int i)"
      by (simp only: scores nth_affinity_array)
    then show ?thesis
      using slot_score_built [OF b2 b3 dom key, of "1001 + int i"]
      by (auto simp: Let_def split: if_splits)
  qed
  ultimately show ?thesis by blast
qed

theorem affinity_scores_dense_witness:
  "\<exists>result entry.
     compute_affinity_scores [1 \<mapsto> 10, 2 \<mapsto> 5, 3 \<mapsto> 7]
       [1001 \<mapsto> {1, 2}, 1002 \<mapsto> {1, 2}, 1003 \<mapsto> {2}, 1005 \<mapsto> {3}] 1005 = Inr result \<and>
     result (1001, 1002, 1003) = Some entry \<and>
     length (affinity_scores entry) = 5 \<and>
     affinity_scores entry ! 0 = 0 \<and>
     affinity_scores entry ! 1 = 20 \<and>
     affinity_scores entry ! 2 = 10 \<and>
     affinity_scores entry ! 3 = 0 \<and>
     affinity_scores entry ! 4 = 0"
proof -
  let ?rp = "[1 \<mapsto> 10, 2 \<mapsto> 5, 3 \<mapsto> 7] :: rel_points"
  let ?cr = "[1001 \<mapsto> {1, 2}, 1002 \<mapsto> {1, 2}, 1003 \<mapsto> {2}, 1005 \<mapsto> {3}] :: chara_rel"
  obtain result where res: "compute_affinity_scores ?rp ?cr 1005 = Inr result"
    using example_computes [of 1005] by blast
  obtain entry where entry: "result (1001, 1002, 1003) = Some entry"
    using example_entry [OF res] by blast
  have fin: "finite (dom ?cr)" by simp
  note dense = affinity_scores_dense [OF fin res entry]
  have len: "length (affinity_scores entry) = 5"
    using dense by simp
  have slot: "let candidate = 1001 + int i in
       if candidate = 1001 \<or> chara_rel_get ?cr candidate = {}
       then affinity_scores entry ! i = 0
       else \<exists>x y z. get_aff2 ?rp ?cr candidate 1001 = Inr x \<and>
                     get_aff3 ?rp ?cr candidate 1001 1002 = Inr y \<and>
                     get_aff3 ?rp ?cr candidate 1001 1003 = Inr z \<and>
                     affinity_scores entry ! i = x + y + z" if "i < 5" for i
    using dense that len by simp
  have s0: "affinity_scores entry ! 0 = 0"
    using slot [of 0] by simp
  have s1: "affinity_scores entry ! 1 = 20"
    using slot [of 1]
    by (simp add: chara_rel_get_def get_aff2_def get_aff3_def sum_points_def)
  have s2: "affinity_scores entry ! 2 = 10"
    using slot [of 2]
    by (simp add: chara_rel_get_def get_aff2_def get_aff3_def sum_points_def)
  have s3: "affinity_scores entry ! 3 = 0"
    using slot [of 3] by (simp add: chara_rel_get_def)
  have s4: "affinity_scores entry ! 4 = 0"
    using slot [of 4]
    by (simp add: chara_rel_get_def get_aff2_def get_aff3_def sum_points_def)
  from res entry len s0 s1 s2 s3 s4 show ?thesis by blast
qed

text \<open>
  C2. The table has the key \<open>(main, left, right)\<close> exactly when the three ids are in the
  entity set and pairwise different; the entry's \<^verbatim>\<open>base_affinity\<close> is
  \<^verbatim>\<open>get_aff2(main, left) + get_aff3(main, left, right)\<close>; fewer than three entities give
  the empty table.
\<close>

theorem table_keys_and_base_affinity:
  assumes "finite (dom cr)"
    and "compute_affinity_scores rp cr M = Inr result"
  shows "(result (m, l, r) \<noteq> None \<longleftrightarrow>
            m \<in> dom cr \<and> l \<in> dom cr \<and> r \<in> dom cr \<and> l \<noteq> m \<and> r \<noteq> m \<and> r \<noteq> l) \<and>
         (\<forall>entry. result (m, l, r) = Some entry \<longrightarrow>
            (\<exists>x y. get_aff2 rp cr m l = Inr x \<and> get_aff3 rp cr m l r = Inr y \<and>
                    base_affinity entry = x + y)) \<and>
         (card (dom cr) < 3 \<longrightarrow> result = Map.empty)"
proof -
  from assms(2) obtain aff2 aff3 where
    b2: "build_aff2 rp cr (chars_of cr) = Inr aff2" and
    b3: "build_aff3 rp cr (chars_of cr) = Inr aff3" and
    res: "result = build_table cr (chars_of cr) M aff2 aff3"
    by (rule compute_affinity_scores_Inr)
  have dom: "set (chars_of cr) = dom cr"
    using assms(1) by (rule set_chars_of)
  have keys: "result (m, l, r) \<noteq> None \<longleftrightarrow>
            m \<in> dom cr \<and> l \<in> dom cr \<and> r \<in> dom cr \<and> l \<noteq> m \<and> r \<noteq> m \<and> r \<noteq> l" for m l r
    by (simp add: res build_table_lookup dom)
  have base: "\<exists>x y. get_aff2 rp cr m l = Inr x \<and> get_aff3 rp cr m l r = Inr y \<and>
                    base_affinity entry = x + y"
    if "result (m, l, r) = Some entry" for entry
  proof -
    from that have key: "m \<in> set (chars_of cr)" "l \<in> set (chars_of cr)"
        "r \<in> set (chars_of cr)" "r \<noteq> l"
      and entry: "entry = make_entry cr aff2 aff3 M (m, l, r)"
      by (auto simp: res build_table_lookup split: if_splits)
    have "base_affinity entry = aff2_get aff2 (m, l) + aff3_get aff3 (m, l, r)"
      by (simp add: entry make_entry_def)
    then show ?thesis
      using get_aff2_cached [OF b2 key(1,2)] get_aff3_cached [OF b2 b3 key(1,2,3)] key(4)
      by auto
  qed
  have small: "result = Map.empty" if "card (dom cr) < 3"
  proof (rule ext)
    fix k :: "int \<times> int \<times> int"
    obtain m l r where k: "k = (m, l, r)" by (cases k) auto
    have "result (m, l, r) = None"
    proof (rule ccontr)
      assume "result (m, l, r) \<noteq> None"
      then have "{m, l, r} \<subseteq> dom cr" and "card {m, l, r} = 3"
        using keys [of m l r] by auto
      then have "3 \<le> card (dom cr)"
        using card_mono [OF assms(1), of "{m, l, r}"] by simp
      with that show False by simp
    qed
    then show "result k = None" by (simp add: k)
  qed
  from keys base small show ?thesis by blast
qed

theorem table_keys_and_base_affinity_witness:
  "\<exists>result entry small.
     compute_affinity_scores [1 \<mapsto> 10, 2 \<mapsto> 5, 3 \<mapsto> 7]
         [1001 \<mapsto> {1, 2}, 1002 \<mapsto> {1, 2}, 1003 \<mapsto> {2}, 1005 \<mapsto> {3}] 1005 = Inr result \<and>
     result (1001, 1002, 1003) = Some entry \<and> base_affinity entry = 20 \<and>
     result (1001, 1001, 1003) = None \<and> result (1001, 1002, 1004) = None \<and>
     compute_affinity_scores [1 \<mapsto> 10, 2 \<mapsto> 5, 3 \<mapsto> 7] [1001 \<mapsto> {1, 2}, 1002 \<mapsto> {1, 2}] 1002 = Inr small \<and>
     small = Map.empty"
proof -
  obtain result where res: "compute_affinity_scores [1 \<mapsto> 10, 2 \<mapsto> 5, 3 \<mapsto> 7]
      [1001 \<mapsto> {1, 2}, 1002 \<mapsto> {1, 2}, 1003 \<mapsto> {2}, 1005 \<mapsto> {3}] 1005 = Inr result"
    using example_computes [of 1005] by blast
  have fin: "finite (dom [1001 \<mapsto> {1, 2}, 1002 \<mapsto> {1, 2}, 1003 \<mapsto> {2}, 1005 \<mapsto> {3}])" by simp
  note table = table_keys_and_base_affinity [OF fin res]
  obtain entry where entry: "result (1001, 1002, 1003) = Some entry"
    using table [of 1001 1002 1003] by auto
  have g2: "get_aff2 [1 \<mapsto> 10, 2 \<mapsto> 5, 3 \<mapsto> 7]
      [1001 \<mapsto> {1, 2}, 1002 \<mapsto> {1, 2}, 1003 \<mapsto> {2}, 1005 \<mapsto> {3}] 1001 1002 = Inr 15"
    by (simp add: get_aff2_def chara_rel_get_def sum_points_def)
  have g3: "get_aff3 [1 \<mapsto> 10, 2 \<mapsto> 5, 3 \<mapsto> 7]
      [1001 \<mapsto> {1, 2}, 1002 \<mapsto> {1, 2}, 1003 \<mapsto> {2}, 1005 \<mapsto> {3}] 1001 1002 1003 = Inr 5"
    by (simp add: get_aff3_def chara_rel_get_def sum_points_def)
  have base: "base_affinity entry = 20"
    using table [of 1001 1002 1003] entry g2 g3 by auto
  have none1: "result (1001, 1001, 1003) = None"
    using table [of 1001 1001 1003] by simp
  have none2: "result (1001, 1002, 1004) = None"
    using table [of 1001 1002 1004] by simp
  let ?cr2 = "[1001 \<mapsto> {1, 2}, 1002 \<mapsto> {1, 2}] :: chara_rel"
  have chars2: "chars_of ?cr2 = [1001, 1002]"
    by (simp add: chars_of_def)
  have "\<not> (\<exists>e. compute_affinity_scores [1 \<mapsto> 10, 2 \<mapsto> 5, 3 \<mapsto> 7] ?cr2 1002 = Inl e)"
    unfolding compute_affinity_scores_raises chars2
    by (simp add: chara_rel_get_def)
  then obtain small where sm: "compute_affinity_scores [1 \<mapsto> 10, 2 \<mapsto> 5, 3 \<mapsto> 7] ?cr2 1002 = Inr small"
    by (cases "compute_affinity_scores [1 \<mapsto> 10, 2 \<mapsto> 5, 3 \<mapsto> 7] ?cr2 1002") auto
  have fin2: "finite (dom ?cr2)" by simp
  have "small = Map.empty"
    using table_keys_and_base_affinity [OF fin2 sm, of 0 0 0] by simp
  with res entry base none1 none2 sm show ?thesis by blast
qed

section \<open>Properties of the change detector\<close>

text \<open>
  C9. With a previous snapshot, \<^verbatim>\<open>check_for_data_changes\<close> returns true exactly when the
  points dictionary differs, or a character of the snapshot is absent from the current
  data, or a character of the snapshot has a different set of relation types now. With
  no snapshot file it returns false. In particular it returns true when some
  character's set changed although the characters are the same as before.
\<close>

theorem change_detector_verdict:
  "(check_for_data_changes (Readable prev) rp cr \<longleftrightarrow>
      prev_rel_points prev \<noteq> rp \<or>
      (\<exists>(char_id, prev_rels)\<in>set (prev_chara_rel prev). cr char_id = None) \<or>
      (\<exists>(char_id, prev_rels)\<in>set (prev_chara_rel prev).
          \<exists>curr_rels. cr char_id = Some curr_rels \<and> curr_rels \<noteq> prev_rels)) \<and>
   \<not> check_for_data_changes Absent rp cr \<and>
   (prev_rel_points prev = rp \<and> fst ` set (prev_chara_rel prev) = dom cr \<and>
    (char_id, prev_rels) \<in> set (prev_chara_rel prev) \<and> cr char_id \<noteq> Some prev_rels
      \<longrightarrow> check_for_data_changes (Readable prev) rp cr)"
proof -
  let ?items = "prev_chara_rel prev"
  have split: "(\<exists>k s. (k, s) \<in> set ?items \<and> cr k \<noteq> Some s) \<longleftrightarrow>
      (\<exists>k s. (k, s) \<in> set ?items \<and> cr k = None) \<or>
      (\<exists>k s. (k, s) \<in> set ?items \<and> (\<exists>curr_rels. cr k = Some curr_rels \<and> curr_rels \<noteq> s))"
    by (metis option.distinct(1) option.exhaust option.inject)
  have loop: "chara_rel_changed ?items cr \<longleftrightarrow>
      (\<exists>(char_id, prev_rels)\<in>set ?items. cr char_id = None) \<or>
      (\<exists>(char_id, prev_rels)\<in>set ?items.
          \<exists>curr_rels. cr char_id = Some curr_rels \<and> curr_rels \<noteq> prev_rels)"
    unfolding chara_rel_changed_mem split by (simp add: Bex_def)
  have first: "check_for_data_changes (Readable prev) rp cr \<longleftrightarrow>
      prev_rel_points prev \<noteq> rp \<or> chara_rel_changed ?items cr"
    by (simp add: check_for_data_changes_def)
  have absent: "\<not> check_for_data_changes Absent rp cr"
    by (simp add: check_for_data_changes_def)
  have third: "check_for_data_changes (Readable prev) rp cr"
    if "(char_id, prev_rels) \<in> set ?items" "cr char_id \<noteq> Some prev_rels"
    unfolding first chara_rel_changed_mem using that by blast
  show ?thesis
    unfolding first loop using absent third loop first by blast
qed


theorem change_detector_verdict_witness:
  "check_for_data_changes
     (Readable \<lparr> prev_rel_points = [1 \<mapsto> 10, 2 \<mapsto> 5],
                 prev_chara_rel = [(1001, {1}), (1002, {1})] \<rparr>)
     [1 \<mapsto> 10, 2 \<mapsto> 5] [1001 \<mapsto> {1}, 1002 \<mapsto> {1, 2}] \<and>
   \<not> check_for_data_changes
     (Readable \<lparr> prev_rel_points = [1 \<mapsto> 10, 2 \<mapsto> 5],
                 prev_chara_rel = [(1001, {1}), (1002, {1})] \<rparr>)
     [1 \<mapsto> 10, 2 \<mapsto> 5] [1001 \<mapsto> {1}, 1002 \<mapsto> {1}, 1003 \<mapsto> {2}]"
proof -
  let ?prev = "\<lparr> prev_rel_points = [1 \<mapsto> 10, 2 \<mapsto> 5],
                 prev_chara_rel = [(1001, {1}), (1002, {1::int})] \<rparr> :: snapshot"
  let ?rp = "[1 \<mapsto> 10, 2 \<mapsto> 5] :: rel_points"
  let ?cr1 = "[1001 \<mapsto> {1}, 1002 \<mapsto> {1, 2}] :: chara_rel"
  let ?cr2 = "[1001 \<mapsto> {1}, 1002 \<mapsto> {1}, 1003 \<mapsto> {2}] :: chara_rel"
  have p1: "prev_rel_points ?prev = ?rp" by simp
  have p2: "fst ` set (prev_chara_rel ?prev) = dom ?cr1" by auto
  have p3: "(1002, {1}) \<in> set (prev_chara_rel ?prev)" by simp
  have p4: "?cr1 1002 \<noteq> Some {1}" by auto
  have changed: "check_for_data_changes (Readable ?prev) ?rp ?cr1"
    using change_detector_verdict [of ?prev ?rp ?cr1 1002 "{1}"] p1 p2 p3 p4 by blast
  have q1: "\<not> (\<exists>(char_id, prev_rels)\<in>set (prev_chara_rel ?prev). ?cr2 char_id = None)"
    by simp
  have q2: "\<not> (\<exists>(char_id, prev_rels)\<in>set (prev_chara_rel ?prev).
          \<exists>curr_rels. ?cr2 char_id = Some curr_rels \<and> curr_rels \<noteq> prev_rels)"
    by simp
  have unchanged: "\<not> check_for_data_changes (Readable ?prev) ?rp ?cr2"
    using change_detector_verdict [of ?prev ?rp ?cr2 1002 "{1}"] p1 q1 q2 by blast
  from changed unchanged show ?thesis by simp
qed

section \<open>Missing weights\<close>

text \<open>
  C4, as stated, does not hold. \<^verbatim>\<open>rel_points[rt]\<close> is evaluated only for relation types
  in the intersection of two different characters' sets. Here character 1003 has
  relation type 2, which has no points, but shares it with nobody: the computation
  returns a table and the run writes both files.
\<close>

theorem missing_weight_counterexample:
  "2 \<in> chara_rel_get [1001 \<mapsto> {1}, 1002 \<mapsto> {1}, 1003 \<mapsto> {2}] 1003 \<and>
   ([1 \<mapsto> 10] :: rel_points) 2 = None \<and>
   \<not> isl (compute_affinity_scores [1 \<mapsto> 10] [1001 \<mapsto> {1}, 1002 \<mapsto> {1}, 1003 \<mapsto> {2}] 1003) \<and>
   fst (main \<lparr> sqlite_exists = True, master_rel_points = [1 \<mapsto> 10],
               master_chara_rel = [1001 \<mapsto> {1}, 1002 \<mapsto> {1}, 1003 \<mapsto> {2}],
               migration_file = Absent, definitions_file = Absent \<rparr>) = Returned \<and>
   length (snd (main \<lparr> sqlite_exists = True, master_rel_points = [1 \<mapsto> 10],
               master_chara_rel = [1001 \<mapsto> {1}, 1002 \<mapsto> {1}, 1003 \<mapsto> {2}],
               migration_file = Absent, definitions_file = Absent \<rparr>)) = 2"
proof -
  let ?rp = "[1 \<mapsto> 10] :: rel_points"
  let ?cr = "[1001 \<mapsto> {1}, 1002 \<mapsto> {1}, 1003 \<mapsto> {2}] :: chara_rel"
  let ?e = "\<lparr> sqlite_exists = True, master_rel_points = ?rp, master_chara_rel = ?cr,
              migration_file = Absent, definitions_file = Absent \<rparr>"
  have chars: "chars_of ?cr = [1001, 1002, 1003]"
    by (simp add: chars_of_def)
  have "\<not> (\<exists>e. compute_affinity_scores ?rp ?cr 1003 = Inl e)"
    unfolding compute_affinity_scores_raises chars
    by (simp add: chara_rel_get_def)
  then obtain result where res: "compute_affinity_scores ?rp ?cr 1003 = Inr result"
    by (cases "compute_affinity_scores ?rp ?cr 1003") auto
  have run: "main ?e =
       (Returned,
        [Definitions ?rp ?cr 1003,
         Migration \<lparr> mig_incremental = False, mig_last_character = 1003,
                     mig_array_length = 3, mig_updates = result,
                     mig_index_ids = [1001, 1002, 1003], mig_default_index = True \<rparr>])"
    by (simp add: main_def chars res get_last_processed_character_def plan_update_def
          index_char_ids_def)
  have "2 \<in> chara_rel_get ?cr 1003"
    by (simp add: chara_rel_get_def)
  moreover have "?rp 2 = None" by simp
  moreover have "\<not> isl (compute_affinity_scores ?rp ?cr 1003)"
    by (simp add: res)
  ultimately show ?thesis
    by (simp add: run)
qed

text \<open>
  C4, amended. The computation raises \<^verbatim>\<open>KeyError\<close> exactly when a relation type shared
  by two different characters has no points. A run on such data writes nothing, and a
  first run on it ends with the \<^verbatim>\<open>KeyError\<close>. No 0 stands in for a missing weight: when
  the computation returns, every weight it summed was present.
\<close>

theorem shared_missing_weight_aborts:
  assumes "finite (dom cr)"
    and "master_rel_points e = rp" and "master_chara_rel e = cr"
  shows "(compute_affinity_scores rp cr M = Inl KeyError \<longleftrightarrow>
            (\<exists>a\<in>dom cr. \<exists>b\<in>dom cr. a \<noteq> b \<and>
               \<not> chara_rel_get cr a \<inter> chara_rel_get cr b \<subseteq> dom rp)) \<and>
         ((\<exists>a\<in>dom cr. \<exists>b\<in>dom cr. a \<noteq> b \<and>
               \<not> chara_rel_get cr a \<inter> chara_rel_get cr b \<subseteq> dom rp)
            \<longrightarrow> snd (main e) = []) \<and>
         ((\<exists>a\<in>dom cr. \<exists>b\<in>dom cr. a \<noteq> b \<and>
               \<not> chara_rel_get cr a \<inter> chara_rel_get cr b \<subseteq> dom rp) \<and>
          sqlite_exists e \<and> migration_file e = Absent
            \<longrightarrow> main e = (Raised KeyError, []))"
proof -
  let ?bad = "\<exists>a\<in>dom cr. \<exists>b\<in>dom cr. a \<noteq> b \<and>
               \<not> chara_rel_get cr a \<inter> chara_rel_get cr b \<subseteq> dom rp"
  have raises: "compute_affinity_scores rp cr M = Inl KeyError \<longleftrightarrow> ?bad" for M
    using assms(1) by (rule compute_affinity_scores_raises_KeyError)
  have unwritten: "snd (main e) = []" if ?bad
  proof -
    have "compute_affinity_scores (master_rel_points e) (master_chara_rel e)
            (Max (set (chars_of (master_chara_rel e)))) = Inl KeyError"
      using that raises by (simp add: assms(2,3))
    then show ?thesis by (rule main_nothing_written)
  qed
  have abort: "main e = (Raised KeyError, [])"
    if ?bad "sqlite_exists e" "migration_file e = Absent"
  proof -
    have "compute_affinity_scores (master_rel_points e) (master_chara_rel e)
            (Max (set (chars_of (master_chara_rel e)))) = Inl KeyError"
      using that(1) raises by (simp add: assms(2,3))
    moreover have "chars_of (master_chara_rel e) \<noteq> []"
    proof
      assume "chars_of (master_chara_rel e) = []"
      then have "set (chars_of cr) = {}" by (simp add: assms(3))
      then have "dom cr = {}" using set_chars_of [OF assms(1)] by simp
      with that(1) show False by blast
    qed
    ultimately show ?thesis
      using that(2,3) by (intro main_first_run_raises)
  qed
  from raises unwritten abort show ?thesis by blast
qed

theorem shared_missing_weight_aborts_witness:
  "compute_affinity_scores [1 \<mapsto> 10] [1001 \<mapsto> {1, 2}, 1002 \<mapsto> {2}] 1002 = Inl KeyError \<and>
   main \<lparr> sqlite_exists = True, master_rel_points = [1 \<mapsto> 10],
          master_chara_rel = [1001 \<mapsto> {1, 2}, 1002 \<mapsto> {2}],
          migration_file = Absent, definitions_file = Absent \<rparr> = (Raised KeyError, [])"
proof -
  let ?rp = "[1 \<mapsto> 10] :: rel_points"
  let ?cr = "[1001 \<mapsto> {1, 2}, 1002 \<mapsto> {2}] :: chara_rel"
  let ?e = "\<lparr> sqlite_exists = True, master_rel_points = ?rp, master_chara_rel = ?cr,
              migration_file = Absent, definitions_file = Absent \<rparr>"
  have fin: "finite (dom ?cr)" by simp
  have "\<not> chara_rel_get ?cr 1001 \<inter> chara_rel_get ?cr 1002 \<subseteq> dom ?rp"
    by (simp add: chara_rel_get_def)
  then have bad: "\<exists>a\<in>dom ?cr. \<exists>b\<in>dom ?cr. a \<noteq> b \<and>
               \<not> chara_rel_get ?cr a \<inter> chara_rel_get ?cr b \<subseteq> dom ?rp"
    by (intro bexI [of _ 1001] bexI [of _ 1002]) simp_all
  have e: "master_rel_points ?e = ?rp" "master_chara_rel ?e = ?cr"
      "sqlite_exists ?e" "migration_file ?e = Absent"
    by simp_all
  from shared_missing_weight_aborts [OF fin e(1,2), of 1002] bad e(3,4)
  show ?thesis by blast
qed

section \<open>Queries with an id outside the entity set\<close>



section \<open>The decision of \<^verbatim>\<open>main\<close>\<close>

text \<open>
  C3, as stated, does not hold in two places. First input: the snapshot differs from
  the current data (character 1001 had one relation type, now has two) and the previous
  script ends at 1005, the current maximum. The run is not a no-op, but the script is
  an incremental one whose list of new ids is empty: it has no index statement at all,
  where a full re-index has the four characters' indexes and the default index. Second
  input: nothing changed and the previous script ends at 1003; the new-id range is
  1004 to 1005, but 1004 is not a character, and the only index statements are those
  of 1005.
\<close>

theorem full_reindex_counterexample:
  "check_for_data_changes
     (Readable \<lparr> prev_rel_points = [1 \<mapsto> 10, 2 \<mapsto> 5, 3 \<mapsto> 7], prev_chara_rel = [(1001, {1})] \<rparr>)
     [1 \<mapsto> 10, 2 \<mapsto> 5, 3 \<mapsto> 7]
     [1001 \<mapsto> {1, 2}, 1002 \<mapsto> {1, 2}, 1003 \<mapsto> {2}, 1005 \<mapsto> {3}] \<and>
   main \<lparr> sqlite_exists = True, master_rel_points = [1 \<mapsto> 10, 2 \<mapsto> 5, 3 \<mapsto> 7],
          master_chara_rel = [1001 \<mapsto> {1, 2}, 1002 \<mapsto> {1, 2}, 1003 \<mapsto> {2}, 1005 \<mapsto> {3}],
          migration_file = Readable (Some 1005),
          definitions_file =
            Readable \<lparr> prev_rel_points = [1 \<mapsto> 10, 2 \<mapsto> 5, 3 \<mapsto> 7], prev_chara_rel = [(1001, {1})] \<rparr> \<rparr> =
     (Returned,
      [Definitions [1 \<mapsto> 10, 2 \<mapsto> 5, 3 \<mapsto> 7]
         [1001 \<mapsto> {1, 2}, 1002 \<mapsto> {1, 2}, 1003 \<mapsto> {2}, 1005 \<mapsto> {3}] 1005,
       Migration
         \<lparr> mig_incremental = True, mig_last_character = 1005, mig_array_length = 5,
           mig_updates =
             projr (compute_affinity_scores [1 \<mapsto> 10, 2 \<mapsto> 5, 3 \<mapsto> 7]
                      [1001 \<mapsto> {1, 2}, 1002 \<mapsto> {1, 2}, 1003 \<mapsto> {2}, 1005 \<mapsto> {3}] 1005),
           mig_index_ids = [], mig_default_index = False \<rparr>]) \<and>
   chars_of [1001 \<mapsto> {1, 2}, 1002 \<mapsto> {1, 2}, 1003 \<mapsto> {2}, 1005 \<mapsto> {3}] =
     [1001, 1002, 1003, 1005] \<and>
   main \<lparr> sqlite_exists = True, master_rel_points = [1 \<mapsto> 10, 2 \<mapsto> 5, 3 \<mapsto> 7],
          master_chara_rel = [1001 \<mapsto> {1, 2}, 1002 \<mapsto> {1, 2}, 1003 \<mapsto> {2}, 1005 \<mapsto> {3}],
          migration_file = Readable (Some 1003), definitions_file = Absent \<rparr> =
     (Returned,
      [Definitions [1 \<mapsto> 10, 2 \<mapsto> 5, 3 \<mapsto> 7]
         [1001 \<mapsto> {1, 2}, 1002 \<mapsto> {1, 2}, 1003 \<mapsto> {2}, 1005 \<mapsto> {3}] 1005,
       Migration
         \<lparr> mig_incremental = True, mig_last_character = 1005, mig_array_length = 5,
           mig_updates =
             projr (compute_affinity_scores [1 \<mapsto> 10, 2 \<mapsto> 5, 3 \<mapsto> 7]
                      [1001 \<mapsto> {1, 2}, 1002 \<mapsto> {1, 2}, 1003 \<mapsto> {2}, 1005 \<mapsto> {3}] 1005),
           mig_index_ids = [1005], mig_default_index = False \<rparr>])"
proof -
  let ?prev = "\<lparr> prev_rel_points = [1 \<mapsto> 10, 2 \<mapsto> 5, 3 \<mapsto> 7], prev_chara_rel = [(1001, {1})] \<rparr>"
  have changed: "check_for_data_changes (Readable ?prev) [1 \<mapsto> 10, 2 \<mapsto> 5, 3 \<mapsto> 7]
      [1001 \<mapsto> {1, 2}, 1002 \<mapsto> {1, 2}, 1003 \<mapsto> {2}, 1005 \<mapsto> {3}]"
    by (auto simp: check_for_data_changes_def)
  have unchanged: "\<not> check_for_data_changes Absent [1 \<mapsto> 10, 2 \<mapsto> 5, 3 \<mapsto> 7]
      [1001 \<mapsto> {1, 2}, 1002 \<mapsto> {1, 2}, 1003 \<mapsto> {2}, 1005 \<mapsto> {3}]"
    by (simp add: check_for_data_changes_def)
  have plan1: "plan_update (Some 1005) (Readable ?prev) [1 \<mapsto> 10, 2 \<mapsto> 5, 3 \<mapsto> 7]
      [1001 \<mapsto> {1, 2}, 1002 \<mapsto> {1, 2}, 1003 \<mapsto> {2}, 1005 \<mapsto> {3}] 1005 = Generate [] True"
    using changed by (simp add: plan_update_def)
  have plan2: "plan_update (Some 1003) Absent [1 \<mapsto> 10, 2 \<mapsto> 5, 3 \<mapsto> 7]
      [1001 \<mapsto> {1, 2}, 1002 \<mapsto> {1, 2}, 1003 \<mapsto> {2}, 1005 \<mapsto> {3}] 1005 = Generate [1004, 1005] True"
    using unchanged by (simp add: plan_update_def)
  have run1: "main \<lparr> sqlite_exists = True, master_rel_points = [1 \<mapsto> 10, 2 \<mapsto> 5, 3 \<mapsto> 7],
          master_chara_rel = [1001 \<mapsto> {1, 2}, 1002 \<mapsto> {1, 2}, 1003 \<mapsto> {2}, 1005 \<mapsto> {3}],
          migration_file = Readable (Some 1005), definitions_file = Readable ?prev \<rparr> =
     (Returned,
      [Definitions [1 \<mapsto> 10, 2 \<mapsto> 5, 3 \<mapsto> 7]
         [1001 \<mapsto> {1, 2}, 1002 \<mapsto> {1, 2}, 1003 \<mapsto> {2}, 1005 \<mapsto> {3}] 1005,
       Migration
         \<lparr> mig_incremental = True, mig_last_character = 1005, mig_array_length = 5,
           mig_updates =
             projr (compute_affinity_scores [1 \<mapsto> 10, 2 \<mapsto> 5, 3 \<mapsto> 7]
                      [1001 \<mapsto> {1, 2}, 1002 \<mapsto> {1, 2}, 1003 \<mapsto> {2}, 1005 \<mapsto> {3}] 1005),
           mig_index_ids = [], mig_default_index = False \<rparr>])"
    by (simp add: example_main get_last_processed_character_def plan1 index_char_ids_def)
  have run2: "main \<lparr> sqlite_exists = True, master_rel_points = [1 \<mapsto> 10, 2 \<mapsto> 5, 3 \<mapsto> 7],
          master_chara_rel = [1001 \<mapsto> {1, 2}, 1002 \<mapsto> {1, 2}, 1003 \<mapsto> {2}, 1005 \<mapsto> {3}],
          migration_file = Readable (Some 1003), definitions_file = Absent \<rparr> =
     (Returned,
      [Definitions [1 \<mapsto> 10, 2 \<mapsto> 5, 3 \<mapsto> 7]
         [1001 \<mapsto> {1, 2}, 1002 \<mapsto> {1, 2}, 1003 \<mapsto> {2}, 1005 \<mapsto> {3}] 1005,
       Migration
         \<lparr> mig_incremental = True, mig_last_character = 1005, mig_array_length = 5,
           mig_updates =
             projr (compute_affinity_scores [1 \<mapsto> 10, 2 \<mapsto> 5, 3 \<mapsto> 7]
                      [1001 \<mapsto> {1, 2}, 1002 \<mapsto> {1, 2}, 1003 \<mapsto> {2}, 1005 \<mapsto> {3}] 1005),
           mig_index_ids = [1005], mig_default_index = False \<rparr>])"
    by (simp add: example_main get_last_processed_character_def plan2 index_char_ids_def)
  from changed run1 example_chars run2 show ?thesis
    by (intro conjI)
qed

text \<open>
  C3, amended. With a previous maximum \<open>N\<close> (not 0) read from the previous script: when
  nothing changed and the current maximum is not above \<open>N\<close>, the run returns with
  nothing computed and nothing written. When the current maximum is above \<open>N\<close>, or a
  change was detected, the run is never a no-op: the whole table is computed and
  written under the incremental header, and index statements are written for exactly
  the ids of \<open>(N, current maximum]\<close> that are characters, without the default index.
  With a change and no new id that list is empty.
\<close>

theorem recompute_planner_decision:
  assumes "sqlite_exists e"
    and "finite (dom (master_chara_rel e))" and "dom (master_chara_rel e) \<noteq> {}"
    and "migration_file e = Readable (Some N)" and "N \<noteq> 0"
    and "rp = master_rel_points e" and "cr = master_chara_rel e"
    and "M = Max (dom cr)"
    and "changed = check_for_data_changes (definitions_file e) rp cr"
  shows "(\<not> changed \<and> M \<le> N \<longrightarrow> main e = (Returned, [])) \<and>
         (changed \<or> N < M \<longrightarrow>
            main e =
              (case compute_affinity_scores rp cr M of
                 Inl err \<Rightarrow> (Raised err, [])
               | Inr affinity_data \<Rightarrow>
                   (Returned,
                    [Definitions rp cr M,
                     Migration
                       \<lparr> mig_incremental = True,
                         mig_last_character = M,
                         mig_array_length = M - 1001 + 1,
                         mig_updates = affinity_data,
                         mig_index_ids = filter (\<lambda>char_id. char_id \<in> dom cr) [N + 1..M],
                         mig_default_index = False \<rparr>])))"
proof -
  have dom: "set (chars_of (master_chara_rel e)) = dom (master_chara_rel e)"
    using assms(2) by (rule set_chars_of)
  have nonempty: "chars_of (master_chara_rel e) \<noteq> []"
  proof
    assume "chars_of (master_chara_rel e) = []"
    then have "set (chars_of (master_chara_rel e)) = {}" by simp
    with dom assms(3) show False by simp
  qed
  note run = main_previous_run [OF assms(1) nonempty assms(4,5)]
  have noop: "main e = (Returned, [])" if "\<not> changed" "M \<le> N"
    using that by (simp add: run Let_def dom assms(6-9))
  have generate: "main e =
              (case compute_affinity_scores rp cr M of
                 Inl err \<Rightarrow> (Raised err, [])
               | Inr affinity_data \<Rightarrow>
                   (Returned,
                    [Definitions rp cr M,
                     Migration
                       \<lparr> mig_incremental = True,
                         mig_last_character = M,
                         mig_array_length = M - 1001 + 1,
                         mig_updates = affinity_data,
                         mig_index_ids = filter (\<lambda>char_id. char_id \<in> dom cr) [N + 1..M],
                         mig_default_index = False \<rparr>]))"
    if "changed \<or> N < M"
  proof -
    from that have "\<not> (M \<le> N \<and> \<not> changed)" by auto
    then show ?thesis
      by (simp add: run Let_def dom assms(6-9) split: sum.splits)
  qed
  from noop generate show ?thesis by blast
qed

theorem recompute_planner_decision_witness:
  "main \<lparr> sqlite_exists = True, master_rel_points = [1 \<mapsto> 10, 2 \<mapsto> 5, 3 \<mapsto> 7],
          master_chara_rel = [1001 \<mapsto> {1, 2}, 1002 \<mapsto> {1, 2}, 1003 \<mapsto> {2}, 1005 \<mapsto> {3}],
          migration_file = Readable (Some 1005), definitions_file = Absent \<rparr> =
     (Returned, []) \<and>
   (\<exists>affinity_data.
      compute_affinity_scores [1 \<mapsto> 10, 2 \<mapsto> 5, 3 \<mapsto> 7]
        [1001 \<mapsto> {1, 2}, 1002 \<mapsto> {1, 2}, 1003 \<mapsto> {2}, 1005 \<mapsto> {3}] 1005 = Inr affinity_data \<and>
      main \<lparr> sqlite_exists = True, master_rel_points = [1 \<mapsto> 10, 2 \<mapsto> 5, 3 \<mapsto> 7],
             master_chara_rel = [1001 \<mapsto> {1, 2}, 1002 \<mapsto> {1, 2}, 1003 \<mapsto> {2}, 1005 \<mapsto> {3}],
             migration_file = Readable (Some 1003), definitions_file = Absent \<rparr> =
        (Returned,
         [Definitions [1 \<mapsto> 10, 2 \<mapsto> 5, 3 \<mapsto> 7]
            [1001 \<mapsto> {1, 2}, 1002 \<mapsto> {1, 2}, 1003 \<mapsto> {2}, 1005 \<mapsto> {3}] 1005,
          Migration
            \<lparr> mig_incremental = True, mig_last_character = 1005, mig_array_length = 5,
              mig_updates = affinity_data,
              mig_index_ids = [1005], mig_default_index = False \<rparr>]))"
proof -
  let ?e = "\<lambda>n. \<lparr> sqlite_exists = True, master_rel_points = [1 \<mapsto> 10, 2 \<mapsto> 5, 3 \<mapsto> 7],
          master_chara_rel = [1001 \<mapsto> {1, 2}, 1002 \<mapsto> {1, 2}, 1003 \<mapsto> {2}, 1005 \<mapsto> {3}],
          migration_file = Readable (Some n), definitions_file = Absent \<rparr>"
  obtain affinity_data where res: "compute_affinity_scores [1 \<mapsto> 10, 2 \<mapsto> 5, 3 \<mapsto> 7]
      [1001 \<mapsto> {1, 2}, 1002 \<mapsto> {1, 2}, 1003 \<mapsto> {2}, 1005 \<mapsto> {3}] 1005 = Inr affinity_data"
    using example_computes [of 1005] by blast
  have max: "1005 = Max (dom ([1001 \<mapsto> {1, 2}, 1002 \<mapsto> {1, 2}, 1003 \<mapsto> {2}, 1005 \<mapsto> {3}] :: chara_rel))"
    by simp
  have unchanged: "False = check_for_data_changes (definitions_file (?e n))
      [1 \<mapsto> 10, 2 \<mapsto> 5, 3 \<mapsto> 7]
      [1001 \<mapsto> {1, 2}, 1002 \<mapsto> {1, 2}, 1003 \<mapsto> {2}, 1005 \<mapsto> {3}]" for n
    by (simp add: check_for_data_changes_def)
  have noop: "main (?e 1005) = (Returned, [])"
    using recompute_planner_decision [of "?e 1005" 1005, OF _ _ _ _ _ _ _ max unchanged]
    by simp
  have inc: "main (?e 1003) =
        (Returned,
         [Definitions [1 \<mapsto> 10, 2 \<mapsto> 5, 3 \<mapsto> 7]
            [1001 \<mapsto> {1, 2}, 1002 \<mapsto> {1, 2}, 1003 \<mapsto> {2}, 1005 \<mapsto> {3}] 1005,
          Migration
            \<lparr> mig_incremental = True, mig_last_character = 1005, mig_array_length = 5,
              mig_updates = affinity_data,
              mig_index_ids = [1005], mig_default_index = False \<rparr>])"
    using recompute_planner_decision [of "?e 1003" 1003, OF _ _ _ _ _ _ _ max unchanged]
    by (simp add: res)
  from noop inc res show ?thesis by blast
qed

text \<open>
  Outside the amended claim: \<^verbatim>\<open>if last_char:\<close> is also false for the number 0, so a
  previous script whose line reads \<^verbatim>\<open>-- Last character: 0\<close> gives the full initialization.
\<close>

lemma last_character_zero_is_first_run:
  "plan_update (Some 0) snap rp cr M = Generate [] False"
  by (simp add: plan_update_def)

section \<open>Files of the previous run that cannot be used\<close>

text \<open>
  C6, as stated, does not hold. The previous script is readable and ends at 1005, the
  current maximum; the snapshot file exists but cannot be read or parsed. The change
  detector answers false, the decision is the early return, and nothing is written:
  the run does not fall back to the full initialization that a run without baseline
  (third conjunct) performs.
\<close>

theorem unreadable_snapshot_counterexample:
  "plan_update (Some 1005) Unreadable [1 \<mapsto> 10, 2 \<mapsto> 5, 3 \<mapsto> 7]
     [1001 \<mapsto> {1, 2}, 1002 \<mapsto> {1, 2}, 1003 \<mapsto> {2}, 1005 \<mapsto> {3}] 1005 = UpToDate \<and>
   main \<lparr> sqlite_exists = True, master_rel_points = [1 \<mapsto> 10, 2 \<mapsto> 5, 3 \<mapsto> 7],
          master_chara_rel = [1001 \<mapsto> {1, 2}, 1002 \<mapsto> {1, 2}, 1003 \<mapsto> {2}, 1005 \<mapsto> {3}],
          migration_file = Readable (Some 1005), definitions_file = Unreadable \<rparr> =
     (Returned, []) \<and>
   main \<lparr> sqlite_exists = True, master_rel_points = [1 \<mapsto> 10, 2 \<mapsto> 5, 3 \<mapsto> 7],
          master_chara_rel = [1001 \<mapsto> {1, 2}, 1002 \<mapsto> {1, 2}, 1003 \<mapsto> {2}, 1005 \<mapsto> {3}],
          migration_file = Absent, definitions_file = Absent \<rparr> =
     (Returned,
      [Definitions [1 \<mapsto> 10, 2 \<mapsto> 5, 3 \<mapsto> 7]
         [1001 \<mapsto> {1, 2}, 1002 \<mapsto> {1, 2}, 1003 \<mapsto> {2}, 1005 \<mapsto> {3}] 1005,
       Migration
         \<lparr> mig_incremental = False, mig_last_character = 1005, mig_array_length = 5,
           mig_updates =
             projr (compute_affinity_scores [1 \<mapsto> 10, 2 \<mapsto> 5, 3 \<mapsto> 7]
                      [1001 \<mapsto> {1, 2}, 1002 \<mapsto> {1, 2}, 1003 \<mapsto> {2}, 1005 \<mapsto> {3}] 1005),
           mig_index_ids = [1001, 1002, 1003, 1005], mig_default_index = True \<rparr>])"
proof -
  have plan: "plan_update (Some 1005) Unreadable [1 \<mapsto> 10, 2 \<mapsto> 5, 3 \<mapsto> 7]
      [1001 \<mapsto> {1, 2}, 1002 \<mapsto> {1, 2}, 1003 \<mapsto> {2}, 1005 \<mapsto> {3}] 1005 = UpToDate"
    by (simp add: plan_update_def check_for_data_changes_def)
  have noop: "main \<lparr> sqlite_exists = True, master_rel_points = [1 \<mapsto> 10, 2 \<mapsto> 5, 3 \<mapsto> 7],
          master_chara_rel = [1001 \<mapsto> {1, 2}, 1002 \<mapsto> {1, 2}, 1003 \<mapsto> {2}, 1005 \<mapsto> {3}],
          migration_file = Readable (Some 1005), definitions_file = Unreadable \<rparr> =
     (Returned, [])"
    by (simp add: example_main get_last_processed_character_def plan)
  have full: "main \<lparr> sqlite_exists = True, master_rel_points = [1 \<mapsto> 10, 2 \<mapsto> 5, 3 \<mapsto> 7],
          master_chara_rel = [1001 \<mapsto> {1, 2}, 1002 \<mapsto> {1, 2}, 1003 \<mapsto> {2}, 1005 \<mapsto> {3}],
          migration_file = Absent, definitions_file = Absent \<rparr> =
     (Returned,
      [Definitions [1 \<mapsto> 10, 2 \<mapsto> 5, 3 \<mapsto> 7]
         [1001 \<mapsto> {1, 2}, 1002 \<mapsto> {1, 2}, 1003 \<mapsto> {2}, 1005 \<mapsto> {3}] 1005,
       Migration
         \<lparr> mig_incremental = False, mig_last_character = 1005, mig_array_length = 5,
           mig_updates =
             projr (compute_affinity_scores [1 \<mapsto> 10, 2 \<mapsto> 5, 3 \<mapsto> 7]
                      [1001 \<mapsto> {1, 2}, 1002 \<mapsto> {1, 2}, 1003 \<mapsto> {2}, 1005 \<mapsto> {3}] 1005),
           mig_index_ids = [1001, 1002, 1003, 1005], mig_default_index = True \<rparr>])"
    by (simp add: example_main get_last_processed_character_def plan_update_def
          index_char_ids_def)
  from plan noop full show ?thesis
    by (intro conjI)
qed

text \<open>
  C6, amended. A previous script that is readable but has no \<^verbatim>\<open>-- Last character:\<close> line
  is treated exactly like an absent script, and the decision is then the full
  initialization. A snapshot file that cannot be read or parsed is treated exactly like
  an absent snapshot: the change detector answers false, and the decision is the one
  the previous script's maximum gives, the same as without a snapshot file.
\<close>

theorem unusable_baseline:
  "get_last_processed_character (Readable None) = get_last_processed_character Absent \<and>
   plan_update None snap rp cr M = Generate [] False \<and>
   main (e\<lparr>migration_file := Readable None\<rparr>) = main (e\<lparr>migration_file := Absent\<rparr>) \<and>
   check_for_data_changes Unreadable rp cr = check_for_data_changes Absent rp cr \<and>
   \<not> check_for_data_changes Unreadable rp cr \<and>
   plan_update last_char Unreadable rp cr M = plan_update last_char Absent rp cr M \<and>
   main (e\<lparr>definitions_file := Unreadable\<rparr>) = main (e\<lparr>definitions_file := Absent\<rparr>)"
proof -
  have script: "get_last_processed_character (Readable None) =
      get_last_processed_character Absent"
    by (simp add: get_last_processed_character_def)
  have full: "plan_update None snap rp cr M = Generate [] False"
    by (simp add: plan_update_def)
  have run_script: "main (e\<lparr>migration_file := Readable None\<rparr>) =
      main (e\<lparr>migration_file := Absent\<rparr>)"
    by (simp add: main_def Let_def get_last_processed_character_def)
  have verdict: "check_for_data_changes Unreadable rp cr = check_for_data_changes Absent rp cr"
    "\<not> check_for_data_changes Unreadable rp cr" for rp cr
    by (simp_all add: check_for_data_changes_def)
  have plan: "plan_update last_char Unreadable rp cr M = plan_update last_char Absent rp cr M"
    for last_char rp cr M
    by (simp add: plan_update_def verdict(1) split: option.splits)
  have run_snapshot: "main (e\<lparr>definitions_file := Unreadable\<rparr>) =
      main (e\<lparr>definitions_file := Absent\<rparr>)"
    by (simp add: main_def Let_def plan split: sum.splits)
  from script full run_script verdict plan run_snapshot show ?thesis
    by (intro conjI)
qed

theorem unusable_baseline_witness:
  "main \<lparr> sqlite_exists = True, master_rel_points = [1 \<mapsto> 10, 2 \<mapsto> 5, 3 \<mapsto> 7],
          master_chara_rel = [1001 \<mapsto> {1, 2}, 1002 \<mapsto> {1, 2}, 1003 \<mapsto> {2}, 1005 \<mapsto> {3}],
          migration_file = Readable None, definitions_file = Unreadable \<rparr> =
     (Returned,
      [Definitions [1 \<mapsto> 10, 2 \<mapsto> 5, 3 \<mapsto> 7]
         [1001 \<mapsto> {1, 2}, 1002 \<mapsto> {1, 2}, 1003 \<mapsto> {2}, 1005 \<mapsto> {3}] 1005,
       Migration
         \<lparr> mig_incremental = False, mig_last_character = 1005, mig_array_length = 5,
           mig_updates =
             projr (compute_affinity_scores [1 \<mapsto> 10, 2 \<mapsto> 5, 3 \<mapsto> 7]
                      [1001 \<mapsto> {1, 2}, 1002 \<mapsto> {1, 2}, 1003 \<mapsto> {2}, 1005 \<mapsto> {3}] 1005),
           mig_index_ids = [1001, 1002, 1003, 1005], mig_default_index = True \<rparr>])"
proof -
  let ?e = "\<lparr> sqlite_exists = True, master_rel_points = [1 \<mapsto> 10, 2 \<mapsto> 5, 3 \<mapsto> 7],
          master_chara_rel = [1001 \<mapsto> {1, 2}, 1002 \<mapsto> {1, 2}, 1003 \<mapsto> {2}, 1005 \<mapsto> {3}],
          migration_file = Absent, definitions_file = Unreadable \<rparr>"
  have "main (?e\<lparr>migration_file := Readable None\<rparr>) = main (?e\<lparr>migration_file := Absent\<rparr>)"
    using unusable_baseline [of Unreadable "[1 \<mapsto> 10, 2 \<mapsto> 5, 3 \<mapsto> 7]" "[1001 \<mapsto> {1, 2}, 1002 \<mapsto> {1, 2}, 1003 \<mapsto> {2}, 1005 \<mapsto> {3}]" 1005 ?e None]
    by (elim conjE)
  moreover have "main (?e\<lparr>migration_file := Absent\<rparr>) =
     (Returned,
      [Definitions [1 \<mapsto> 10, 2 \<mapsto> 5, 3 \<mapsto> 7]
         [1001 \<mapsto> {1, 2}, 1002 \<mapsto> {1, 2}, 1003 \<mapsto> {2}, 1005 \<mapsto> {3}] 1005,
       Migration
         \<lparr> mig_incremental = False, mig_last_character = 1005, mig_array_length = 5,
           mig_updates =
             projr (compute_affinity_scores [1 \<mapsto> 10, 2 \<mapsto> 5, 3 \<mapsto> 7]
                      [1001 \<mapsto> {1, 2}, 1002 \<mapsto> {1, 2}, 1003 \<mapsto> {2}, 1005 \<mapsto> {3}] 1005),
           mig_index_ids = [1001, 1002, 1003, 1005], mig_default_index = True \<rparr>])"
    by (simp add: example_main get_last_processed_character_def plan_update_def
          index_char_ids_def)
  ultimately show ?thesis by simp
qed

text \<open>
  Outside the amended claim: \<^verbatim>\<open>get_last_processed_character\<close> opens and reads the script
  without a \<^verbatim>\<open>try\<close>, so a script that exists and cannot be read ends the run with the
  exception.
\<close>

lemma unreadable_script_ends_run:
  assumes "sqlite_exists e" and "chars_of (master_chara_rel e) \<noteq> []"
    and "migration_file e = Unreadable"
  shows "main e = (Raised ReadError, [])"
  using assms by (simp add: main_def Let_def get_last_processed_character_def)

end
